theory Spec2Isabelle
  imports Complex_Main "HOL-Library.Word"
begin

section \<open>Data model\<close>

text \<open>
  The booking backend is an Express application over MongoDB (Mongoose). Each request
  handler is modelled as a function from the environment of the call (clock, configured
  secrets, the external gateway and cryptographic library), the store and the request to a
  reply and the new store. Documents are records, collections are lists in insertion
  order, JavaScript numbers are exact (\<open>int\<close> for counts and timestamps in milliseconds,
  \<open>rat\<close> for money), a missing or \<open>null\<close> field is \<open>None\<close>, and for strings the empty
  string stands for every falsy value, since the handlers only test truthiness.
\<close>

type_synonym oid = nat
type_synonym time = int
type_synonym byte = "8 word"

record slot_times =
  startTime :: string
  endTime :: string

record time_slot = slot_times +
  availableSpots :: int

text \<open>models/Activity.js, the fields the booking handlers read or write.\<close>

record activity =
  activity_id :: oid
  title :: string
  venue :: string
  activity_address :: string
  city :: string
  thumbnailImage :: string
  status :: string
  isAvailable :: bool
  startDate :: time
  endDate :: time
  availableDays :: "string list"
  timeSlots :: "time_slot list"
  price :: rat
  discountPercentage :: "rat option"
  priceAfterDiscount :: "rat option"
  maxParticipants :: int
  minAge :: "rat option"
  maxAge :: "rat option"

record customer =
  name :: string
  email :: string
  phone :: string
  address :: string

record snapshot =
  snap_title :: string
  snap_venue :: string
  snap_address :: string
  snap_city :: string
  snap_thumbnailImage :: string

text \<open>models/Booking.js (the booking schema), with its defaults in \<open>new_booking\<close> below.\<close>

record booking =
  booking_id :: oid
  activity_ref :: oid
  customerDetails :: customer
  bookingDate :: time
  selectedTimeSlot :: slot_times
  numberOfParticipants :: int
  pricePerPerson :: rat
  totalAmount :: rat
  discountAmount :: rat
  finalAmount :: rat
  bookingStatus :: string
  paymentStatus :: string
  transactionId :: "string option"
  razorpayOrderId :: "string option"
  razorpayPaymentId :: "string option"
  razorpaySignature :: "string option"
  paymentMethod :: "string option"
  paidAt :: "time option"
  qrData :: "string option"
  qrImage :: "string option"
  checkedIn :: bool
  checkInTime :: "time option"
  checkInBy :: "oid option"
  confirmationDate :: "time option"
  bookingNumber :: "string option"
  cancelledAt :: "time option"
  cancellationReason :: "string option"
  cancelledBy :: "oid option"
  activitySnapshot :: snapshot
  createdAt :: time

text \<open>
  The store: both collections, the next fresh object id, and the log of the confirmation
  messages handed to the e-mail and WhatsApp services (channel and booking).
\<close>

record store =
  activities :: "activity list"
  bookings :: "booking list"
  nextId :: oid
  outbox :: "(string \<times> oid) list"

text \<open>
  What the \<open>catch\<close> of a handler can receive: Mongoose's validation error, the duplicate key
  error of a unique index, the error of a \<open>pre('save')\<close> hook, and the \<open>TypeError\<close> of reading
  a property of \<open>undefined\<close>.
\<close>

datatype db_error = ValidationError | DuplicateKey | HookError string | TypeError

text \<open>The JSON bodies of the replies: the message and the data that matter to a client.\<close>

datatype detail =
    NoDetail
  | Required "string list"
  | CurrentStatus string
  | Spots int int
  | AvailableRange time time
  | AvailableDays "string list"
  | AvailableSlots "time_slot list"
  | OrderData string int string "string option"
  | VerifyData oid "string option" string string "string option" rat "time option" bool
  | BookingData oid "string option" rat string
  | CheckedInAt "time option" "oid option"
  | NotToday time time
  | CheckInData "string option" string string int "time option"
  | CancelledData booking
  | Thrown db_error
  | GatewayFailure

datatype reply = Reply (status_code: nat) (success: bool) (message: string) (payload: detail)

section \<open>The environment of a request\<close>

record order_options =
  amount :: int
  currency :: string
  receipt :: string
  notes_bookingId :: oid
  notes_bookingNumber :: "string option"

record gateway_order =
  order_ident :: string
  order_amount :: int
  order_currency :: string

text \<open>The payload bound into the entry credential, qrController.js \<open>generateQRData\<close>.\<close>

record qr_payload =
  qr_bookingId :: oid
  qr_bookingNumber :: "string option"
  qr_customerName :: string
  qr_customerPhone :: string
  qr_activityId :: oid
  qr_bookingDate :: time
  qr_numberOfParticipants :: int
  qr_timeSlot :: slot_times
  qr_timestamp :: time

record payment_entity =
  order_id :: string
  payment_id :: string
  payment_method :: "string option"

text \<open>
  What \<open>req.body.payload.payment.entity\<close> finds in the body of a webhook request: the read
  throws when \<open>payload\<close> or \<open>payload.payment\<close> is missing, it gives \<open>undefined\<close> when the
  payment has no entity, and otherwise the entity.
\<close>

datatype payload_read = Absent | NoEntity | Entity payment_entity

record webhook_request =
  x_razorpay_signature :: "string option"
  event :: string
  body_payload :: payload_read

text \<open>
  What a handler takes from outside the repository: the clock (read once per request) and
  the server's offset from UTC, \<open>process.env\<close>, Node's \<open>crypto\<close> (HMAC-SHA256 in hex,
  \<open>scryptSync\<close>, the AES-256-CBC cipher and decipher, which fails with \<open>None\<close>, and the 16
  random bytes of this call), \<open>JSON\<close>, the \<open>qrcode\<close> package and the Razorpay client, whose
  calls fail with \<open>None\<close>. They are parameters: no property below depends on what they compute,
  except where a theorem says so.
\<close>

record env =
  now :: time
  tzOffset :: int
  RAZORPAY_KEY_SECRET :: string
  RAZORPAY_WEBHOOK_SECRET :: string
  QR_SECRET :: string
  hmac_sha256_hex :: "string \<Rightarrow> string \<Rightarrow> string"
  scryptSync :: "string \<Rightarrow> byte list"
  randomBytes16 :: "byte list"
  cipher :: "byte list \<Rightarrow> byte list \<Rightarrow> string \<Rightarrow> byte list"
  decipher :: "byte list \<Rightarrow> byte list \<Rightarrow> byte list \<Rightarrow> string option"
  json_stringify :: "qr_payload \<Rightarrow> string"
  json_parse :: "string \<Rightarrow> qr_payload option"
  json_body :: "string \<times> payload_read \<Rightarrow> string"
  toDataURL :: "string \<Rightarrow> string option"
  orders_create :: "order_options \<Rightarrow> gateway_order option"
  payments_fetch :: "string \<Rightarrow> string option option"

section \<open>JavaScript helpers\<close>

text \<open>\<open>x || d\<close> on a string that may be missing: the empty string is falsy too.\<close>

definition or_else :: "string option \<Rightarrow> string \<Rightarrow> string" where
  "or_else x d = (case x of None \<Rightarrow> d | Some s \<Rightarrow> if s = [] then d else s)"

text \<open>\<open>Math.round\<close>: the nearest integer, halves upwards.\<close>

definition Math_round :: "rat \<Rightarrow> int" where
  "Math_round x = \<lfloor>x + 1 / 2\<rfloor>"

text \<open>\<open>Array.prototype.findIndex\<close>, with \<open>None\<close> for -1.\<close>

fun findIndex :: "('a \<Rightarrow> bool) \<Rightarrow> 'a list \<Rightarrow> nat option" where
  "findIndex P [] = None"
| "findIndex P (x # xs) =
     (if P x then Some 0 else (case findIndex P xs of None \<Rightarrow> None | Some i \<Rightarrow> Some (Suc i)))"

text \<open>\<open>String.prototype.split\<close> on a one-character separator.\<close>

fun split_on :: "char \<Rightarrow> string \<Rightarrow> string list" where
  "split_on c [] = [[]]"
| "split_on c (x # xs) =
     (if x = c then [] # split_on c xs
      else (case split_on c xs of [] \<Rightarrow> [[x]] | s # ss \<Rightarrow> (x # s) # ss))"

text \<open>
  \<open>buf.toString('hex')\<close> writes two lower-case digits per byte; \<open>Buffer.from(s, 'hex')\<close>
  reads digit pairs of either case and stops at the first pair that is not hexadecimal
  (a last single digit is dropped).
\<close>

definition hex_digit :: "nat \<Rightarrow> char" where
  "hex_digit n = ''0123456789abcdef'' ! n"

definition hex_val :: "char \<Rightarrow> nat option" where
  "hex_val c =
     (case findIndex (\<lambda>d. d = c) ''0123456789abcdef'' of
        Some i \<Rightarrow> Some i
      | None \<Rightarrow> findIndex (\<lambda>d. d = c) ''0123456789ABCDEF'')"

definition to_hex :: "byte list \<Rightarrow> string" where
  "to_hex bs = concat (map (\<lambda>b. [hex_digit (unat b div 16), hex_digit (unat b mod 16)]) bs)"

fun from_hex :: "string \<Rightarrow> byte list" where
  "from_hex (a # b # r) =
     (case hex_val a of
        None \<Rightarrow> []
      | Some h \<Rightarrow> (case hex_val b of None \<Rightarrow> [] | Some l \<Rightarrow> of_nat (16 * h + l) # from_hex r))"
| "from_hex _ = []"

section \<open>Persistence\<close>

definition findBookingById :: "store \<Rightarrow> oid \<Rightarrow> booking option" where
  "findBookingById st i = find (\<lambda>b. booking_id b = i) (bookings st)"

definition findActivityById :: "store \<Rightarrow> oid \<Rightarrow> activity option" where
  "findActivityById st i = find (\<lambda>a. activity_id a = i) (activities st)"

text \<open>\<open>Booking.findOne({ razorpayOrderId })\<close>: the first booking carrying that order id.\<close>

definition findBookingByOrder :: "store \<Rightarrow> string \<Rightarrow> booking option" where
  "findBookingByOrder st ord = find (\<lambda>b. razorpayOrderId b = Some ord) (bookings st)"

text \<open>
  \<open>doc.save()\<close> validates the paths the handler has changed against the schema before it
  writes, and throws a \<open>ValidationError\<close> when one fails. Of the paths the handlers assign,
  two carry a validator that the assigned value can fail: \<open>paymentMethod\<close> of a booking
  (\<open>enum: ['UPI', 'Card', 'NetBanking', 'Wallet', null]\<close>) and \<open>availableSpots\<close> of a time slot
  (\<open>min: 1\<close>).
\<close>

definition paymentMethod_enum :: "string option \<Rightarrow> bool" where
  "paymentMethod_enum m =
     (m = None \<or> m = Some ''UPI'' \<or> m = Some ''Card'' \<or> m = Some ''NetBanking'' \<or> m = Some ''Wallet'')"

definition booking_save :: "store \<Rightarrow> booking \<Rightarrow> booking \<Rightarrow> db_error + store" where
  "booking_save st old new =
     (if paymentMethod new \<noteq> paymentMethod old \<and> \<not> paymentMethod_enum (paymentMethod new)
      then Inl ValidationError
      else Inr (st\<lparr>bookings :=
                  map (\<lambda>b. if booking_id b = booking_id new then new else b) (bookings st)\<rparr>))"

definition modified_slots_valid :: "time_slot list \<Rightarrow> time_slot list \<Rightarrow> bool" where
  "modified_slots_valid old new =
     list_all (\<lambda>(x, y). availableSpots y = availableSpots x \<or> 1 \<le> availableSpots y) (zip old new)"

text \<open>models/Activity.js, \<open>activitySchema.pre('save')\<close>; it runs after validation.\<close>

definition truthy :: "rat option \<Rightarrow> bool" where
  "truthy x = (case x of None \<Rightarrow> False | Some v \<Rightarrow> v \<noteq> 0)"

definition activity_pre_save :: "activity \<Rightarrow> db_error + activity" where
  "activity_pre_save a =
     (let a1 = (case discountPercentage a of
                  None \<Rightarrow> a
                | Some d \<Rightarrow> a\<lparr>priceAfterDiscount := Some (price a - (price a * d) / 100)\<rparr>)
      in if endDate a1 < startDate a1 then Inl (HookError ''End date must be after start date'')
         else if truthy (minAge a1) \<and> truthy (maxAge a1) \<and> the (maxAge a1) < the (minAge a1)
         then Inl (HookError ''Max age must be greater than or equal to min age'')
         else Inr a1)"

definition activity_save :: "store \<Rightarrow> activity \<Rightarrow> activity \<Rightarrow> db_error + store" where
  "activity_save st old new =
     (if \<not> modified_slots_valid (timeSlots old) (timeSlots new) then Inl ValidationError
      else (case activity_pre_save new of
              Inl e \<Rightarrow> Inl e
            | Inr a \<Rightarrow> Inr (st\<lparr>activities :=
                  map (\<lambda>x. if activity_id x = activity_id a then a else x) (activities st)\<rparr>)))"

text \<open>
  The slot of an activity with the given start and end time, and the update
  \<open>activity.timeSlots[slotIndex].availableSpots += n\<close>.
\<close>

definition same_slot :: "slot_times \<Rightarrow> time_slot \<Rightarrow> bool" where
  "same_slot sel slot = (startTime slot = startTime sel \<and> endTime slot = endTime sel)"

definition add_spots :: "activity \<Rightarrow> nat \<Rightarrow> int \<Rightarrow> activity" where
  "add_spots a i n =
     a\<lparr>timeSlots := (timeSlots a)[i := (timeSlots a ! i)\<lparr>availableSpots :=
          availableSpots (timeSlots a ! i) + n\<rparr>]\<rparr>"

section \<open>Entry credential (controllers/qrController.js)\<close>

definition secretKey :: "env \<Rightarrow> string" where
  "secretKey env =
     (if QR_SECRET env = [] then ''your-secret-key-minimum-32-chars-long-for-aes-256''
      else QR_SECRET env)"

definition qr_data :: "env \<Rightarrow> booking \<Rightarrow> qr_payload" where
  "qr_data env b =
     \<lparr>qr_bookingId = booking_id b,
      qr_bookingNumber = bookingNumber b,
      qr_customerName = name (customerDetails b),
      qr_customerPhone = phone (customerDetails b),
      qr_activityId = activity_ref b,
      qr_bookingDate = bookingDate b,
      qr_numberOfParticipants = numberOfParticipants b,
      qr_timeSlot = selectedTimeSlot b,
      qr_timestamp = now env\<rparr>"

definition generateQRData :: "env \<Rightarrow> booking \<Rightarrow> string" where
  "generateQRData env b =
     (let key = scryptSync env (secretKey env);
          iv = randomBytes16 env;
          encrypted = to_hex (cipher env key iv (json_stringify env (qr_data env b)))
      in to_hex iv @ '':'' @ encrypted)"

text \<open>\<open>None\<close> is the thrown \<open>Error('Failed to decrypt QR data')\<close>.\<close>

definition decryptQRData :: "env \<Rightarrow> string \<Rightarrow> qr_payload option" where
  "decryptQRData env encryptedData =
     (let key = scryptSync env (secretKey env)
      in case split_on CHR '':'' encryptedData of
           ivHex # encrypted # _ \<Rightarrow>
             (case decipher env key (from_hex ivHex) (from_hex encrypted) of
                None \<Rightarrow> None
              | Some decrypted \<Rightarrow> json_parse env decrypted)
         | _ \<Rightarrow> None)"

text \<open>
  \<open>generateAndSendQR\<close> swallows every error. The booking it receives was loaded with its
  activity populated; when that activity no longer exists \<open>booking.activity._id\<close> throws
  before anything is changed. The function returns the booking as the handler holds it
  afterwards, and the store.
\<close>

definition generateAndSendQR :: "env \<Rightarrow> store \<Rightarrow> booking \<Rightarrow> booking \<times> store" where
  "generateAndSendQR env st b =
     (case findActivityById st (activity_ref b) of
        None \<Rightarrow> (b, st)
      | Some a \<Rightarrow>
          (let qr = generateQRData env b
           in case toDataURL env qr of
                None \<Rightarrow> (b, st)
              | Some img \<Rightarrow>
                  (let b' = b\<lparr>qrData := Some qr, qrImage := Some img\<rparr>
                   in case booking_save st b b' of
                        Inl e \<Rightarrow> (b', st)
                      | Inr st' \<Rightarrow>
                          (b', st'\<lparr>outbox := outbox st' @
                                 [(''email'', booking_id b), (''whatsapp'', booking_id b)]\<rparr>))))"

section \<open>Payments (controllers/paymentController.js)\<close>

definition order_options_of :: "booking \<Rightarrow> order_options" where
  "order_options_of b =
     \<lparr>amount = Math_round (finalAmount b * 100),
      currency = ''INR'',
      receipt = ''receipt_'' @ (case bookingNumber b of None \<Rightarrow> ''undefined'' | Some s \<Rightarrow> s),
      notes_bookingId = booking_id b,
      notes_bookingNumber = bookingNumber b\<rparr>"

text \<open>
  \<open>createPaymentOrder\<close>. The argument is \<open>req.body.bookingId\<close>; the order is opened at the
  gateway for the final amount in paise.
\<close>

definition createPaymentOrder :: "env \<Rightarrow> store \<Rightarrow> oid option \<Rightarrow> reply \<times> store" where
  "createPaymentOrder env st bookingId =
     (case bookingId of
        None \<Rightarrow> (Reply 400 False ''Booking ID is required'' NoDetail, st)
      | Some i \<Rightarrow>
     (case findBookingById st i of
        None \<Rightarrow> (Reply 404 False ''Booking not found'' NoDetail, st)
      | Some b \<Rightarrow>
          if bookingStatus b \<noteq> ''Initiated''
          then (Reply 400 False ''This booking cannot be paid'' (CurrentStatus (bookingStatus b)), st)
          else if paymentStatus b \<noteq> ''Pending''
          then (Reply 400 False ''Payment already processed'' (CurrentStatus (paymentStatus b)), st)
          else (case orders_create env (order_options_of b) of
                  None \<Rightarrow> (Reply 500 False ''Error creating payment order'' GatewayFailure, st)
                | Some order \<Rightarrow>
                    (case booking_save st b (b\<lparr>razorpayOrderId := Some (order_ident order)\<rparr>) of
                       Inl e \<Rightarrow> (Reply 500 False ''Error creating payment order'' (Thrown e), st)
                     | Inr st' \<Rightarrow>
                         (Reply 200 True ''Payment order created successfully''
                            (OrderData (order_ident order) (order_amount order)
                               (order_currency order) (bookingNumber b)), st')))))"

record verify_request =
  razorpay_order_id :: string
  razorpay_payment_id :: string
  razorpay_signature :: string
  bookingId :: "oid option"

text \<open>
  The fields both confirmation paths assign on success; \<open>verifyPayment\<close> stores the
  signature as well.
\<close>

definition confirm_fields :: "env \<Rightarrow> booking \<Rightarrow> string \<Rightarrow> string \<Rightarrow> booking" where
  "confirm_fields env b pay_id meth =
     b\<lparr>paymentStatus := ''Completed'',
       bookingStatus := ''Confirmed'',
       razorpayPaymentId := Some pay_id,
       transactionId := Some pay_id,
       paymentMethod := Some meth,
       paidAt := Some (now env),
       confirmationDate := Some (now env)\<rparr>"

text \<open>
  \<open>verifyPayment\<close>, the client callback. When the payment details cannot be fetched the
  method is taken from \<open>{ method: 'Unknown', status: 'captured' }\<close>.
\<close>

definition verifyPayment :: "env \<Rightarrow> store \<Rightarrow> verify_request \<Rightarrow> reply \<times> store" where
  "verifyPayment env st req =
     (if razorpay_order_id req = [] \<or> razorpay_payment_id req = [] \<or>
         razorpay_signature req = [] \<or> bookingId req = None
      then (Reply 400 False ''Missing payment verification data'' NoDetail, st)
      else
     (case findBookingById st (the (bookingId req)) of
        None \<Rightarrow> (Reply 404 False ''Booking not found'' NoDetail, st)
      | Some b \<Rightarrow>
          (let body = razorpay_order_id req @ ''|'' @ razorpay_payment_id req;
               expectedSignature = hmac_sha256_hex env (RAZORPAY_KEY_SECRET env) body
           in if expectedSignature \<noteq> razorpay_signature req
              then (case booking_save st b (b\<lparr>paymentStatus := ''Failed''\<rparr>) of
                      Inl e \<Rightarrow> (Reply 500 False ''Error verifying payment'' (Thrown e), st)
                    | Inr st' \<Rightarrow>
                        (Reply 400 False ''Payment verification failed. Invalid signature.''
                           NoDetail, st'))
              else
                (let meth = (case payments_fetch env (razorpay_payment_id req) of
                               None \<Rightarrow> or_else (Some ''Unknown'') ''Unknown''
                             | Some m \<Rightarrow> or_else m ''Unknown'');
                     b' = (confirm_fields env b (razorpay_payment_id req) meth)
                            \<lparr>razorpaySignature := Some (razorpay_signature req)\<rparr>
                 in case booking_save st b b' of
                      Inl e \<Rightarrow> (Reply 500 False ''Error verifying payment'' (Thrown e), st)
                    | Inr st1 \<Rightarrow>
                        (case generateAndSendQR env st1 b' of
                           (b2, st2) \<Rightarrow>
                             (Reply 200 True ''Payment verified successfully! Booking confirmed.''
                                (VerifyData (booking_id b2) (bookingNumber b2) (bookingStatus b2)
                                   (paymentStatus b2) (transactionId b2) (finalAmount b2)
                                   (paidAt b2) (qrImage b2 \<noteq> None \<and> qrImage b2 \<noteq> Some [])),
                              st2))))))"

text \<open>
  The release of the webhook's \<open>payment.failed\<close> branch and of \<open>cancelBooking\<close>: the
  booking's participants are added back to the slot of its activity, when both exist.
  A failing \<open>activity.save()\<close> throws.
\<close>

definition restore_spots :: "store \<Rightarrow> booking \<Rightarrow> db_error + store" where
  "restore_spots st b =
     (case findActivityById st (activity_ref b) of
        None \<Rightarrow> Inr st
      | Some a \<Rightarrow>
          (case findIndex (same_slot (selectedTimeSlot b)) (timeSlots a) of
             None \<Rightarrow> Inr st
           | Some slotIndex \<Rightarrow>
               activity_save st a (add_spots a slotIndex (numberOfParticipants b))))"

text \<open>
  \<open>paymentWebhook\<close>. The signature is taken over \<open>JSON.stringify(req.body)\<close>. The payment
  entity is read from the body before the event type is tested (source line 270), so a
  body without \<open>payload.payment\<close> ends in the \<open>catch\<close> whatever its event; a payment without
  entity leaves \<open>payload\<close> undefined, and the two event branches throw when they read
  \<open>payload.order_id\<close>. The branches for \<open>payment.captured\<close> and \<open>payment.failed\<close> are
  \<open>webhook_captured\<close> and \<open>webhook_failed\<close>.
\<close>

definition webhook_captured :: "env \<Rightarrow> store \<Rightarrow> payment_entity \<Rightarrow> reply \<times> store" where
  "webhook_captured env st p =
     (case findBookingByOrder st (order_id p) of
        None \<Rightarrow> (Reply 404 False ''Booking not found'' NoDetail, st)
      | Some b \<Rightarrow>
          if paymentStatus b = ''Completed''
          then (Reply 200 True ''Payment already processed'' NoDetail, st)
          else
            (let b' = confirm_fields env b (payment_id p) (or_else (payment_method p) ''Unknown'')
             in case booking_save st b b' of
                  Inl e \<Rightarrow> (Reply 500 False ''Webhook processing error'' (Thrown e), st)
                | Inr st1 \<Rightarrow>
                    (Reply 200 True ''Webhook processed successfully'' NoDetail,
                     snd (generateAndSendQR env st1 b'))))"

definition webhook_failed :: "store \<Rightarrow> payment_entity \<Rightarrow> reply \<times> store" where
  "webhook_failed st p =
     (case findBookingByOrder st (order_id p) of
        None \<Rightarrow> (Reply 200 True ''Webhook received'' NoDetail, st)
      | Some b \<Rightarrow>
          if paymentStatus b = ''Pending''
          then (case booking_save st b (b\<lparr>paymentStatus := ''Failed''\<rparr>) of
                  Inl e \<Rightarrow> (Reply 500 False ''Webhook processing error'' (Thrown e), st)
                | Inr st1 \<Rightarrow>
                    (case restore_spots st1 b of
                       Inl e \<Rightarrow> (Reply 500 False ''Webhook processing error'' (Thrown e), st1)
                     | Inr st2 \<Rightarrow> (Reply 200 True ''Webhook received'' NoDetail, st2)))
          else (Reply 200 True ''Webhook received'' NoDetail, st))"

definition paymentWebhook :: "env \<Rightarrow> store \<Rightarrow> webhook_request \<Rightarrow> reply \<times> store" where
  "paymentWebhook env st req =
     (if RAZORPAY_WEBHOOK_SECRET env = []
      then (Reply 500 False ''Webhook secret not configured'' NoDetail, st)
      else if x_razorpay_signature req \<noteq>
                Some (hmac_sha256_hex env (RAZORPAY_WEBHOOK_SECRET env)
                        (json_body env (event req, body_payload req)))
      then (Reply 400 False ''Invalid webhook signature'' NoDetail, st)
      else (case body_payload req of
              Absent \<Rightarrow> (Reply 500 False ''Webhook processing error'' (Thrown TypeError), st)
            | NoEntity \<Rightarrow>
                if event req = ''payment.captured'' \<or> event req = ''payment.failed''
                then (Reply 500 False ''Webhook processing error'' (Thrown TypeError), st)
                else (Reply 200 True ''Webhook received'' NoDetail, st)
            | Entity p \<Rightarrow>
                if event req = ''payment.captured'' then webhook_captured env st p
                else if event req = ''payment.failed'' then webhook_failed st p
                else (Reply 200 True ''Webhook received'' NoDetail, st)))"

section \<open>Dates, numbers and strings of the booking controller\<close>

definition msPerDay :: int where
  "msPerDay = 86400000"

text \<open>\<open>d.setHours(0, 0, 0, 0)\<close>: midnight of the server's local day that contains \<open>t\<close>.\<close>

definition startOfDay :: "env \<Rightarrow> time \<Rightarrow> time" where
  "startOfDay env t = (let l = t + tzOffset env in l - l mod msPerDay - tzOffset env)"

text \<open>\<open>toLocaleDateString('en-US', { weekday: 'long' })\<close>; 1 January 1970 was a Thursday.\<close>

definition weekday :: "env \<Rightarrow> time \<Rightarrow> string" where
  "weekday env t =
     [''Thursday'', ''Friday'', ''Saturday'', ''Sunday'', ''Monday'', ''Tuesday'', ''Wednesday'']
       ! nat (((t + tzOffset env) div msPerDay) mod 7)"

text \<open>
  \<open>getFullYear\<close>, \<open>getMonth() + 1\<close> and \<open>getDate\<close> of the local day: the proleptic Gregorian
  date of a day number counted from 1 January 1970.
\<close>

definition civil_from_days :: "int \<Rightarrow> int \<times> int \<times> int" where
  "civil_from_days z0 =
     (let z = z0 + 719468;
          era = z div 146097;
          doe = z - era * 146097;
          yoe = (doe - doe div 1460 + doe div 36524 - doe div 146096) div 365;
          doy = doe - (365 * yoe + yoe div 4 - yoe div 100);
          mp = (5 * doy + 2) div 153;
          d = doy - (153 * mp + 2) div 5 + 1;
          m = (if mp < 10 then mp + 3 else mp - 9);
          y = yoe + era * 400 + (if m \<le> 2 then 1 else 0)
      in (y, m, d))"

definition local_date :: "env \<Rightarrow> time \<Rightarrow> int \<times> int \<times> int" where
  "local_date env t = civil_from_days ((t + tzOffset env) div msPerDay)"

text \<open>\<open>String(n)\<close> of an integer, \<open>padStart\<close>, \<open>slice(-k)\<close>, \<open>trim\<close>, \<open>toLowerCase\<close>.\<close>

function digits_of :: "nat \<Rightarrow> string" where
  "digits_of n =
     (if n < 10 then [''0123456789'' ! n]
      else digits_of (n div 10) @ [''0123456789'' ! (n mod 10)])"
  by pat_completeness auto
termination
  by (relation "measure id") auto

declare digits_of.simps [simp del]

definition String_of :: "int \<Rightarrow> string" where
  "String_of i =
     (if i < 0 then CHR ''-'' # digits_of (nat (- i)) else digits_of (nat i))"

definition padStart :: "nat \<Rightarrow> char \<Rightarrow> string \<Rightarrow> string" where
  "padStart k c s = replicate (k - length s) c @ s"

definition slice_last :: "nat \<Rightarrow> string \<Rightarrow> string" where
  "slice_last k s = drop (length s - k) s"

definition is_space :: "char \<Rightarrow> bool" where
  "is_space c = (c = CHR '' '' \<or> (9 :: nat) \<le> of_char c \<and> (of_char c :: nat) \<le> 13)"

definition is_digit :: "char \<Rightarrow> bool" where
  "is_digit c = ((48 :: nat) \<le> of_char c \<and> (of_char c :: nat) \<le> 57)"

definition trim :: "string \<Rightarrow> string" where
  "trim s = rev (dropWhile is_space (rev (dropWhile is_space s)))"

definition lower_char :: "char \<Rightarrow> char" where
  "lower_char c =
     (case findIndex (\<lambda>d. d = c) ''ABCDEFGHIJKLMNOPQRSTUVWXYZ'' of
        None \<Rightarrow> c
      | Some i \<Rightarrow> ''abcdefghijklmnopqrstuvwxyz'' ! i)"

definition toLowerCase :: "string \<Rightarrow> string" where
  "toLowerCase s = map lower_char s"

text \<open>
  \<open>parseInt(s)\<close> in base 10: leading white space, an optional sign, then the longest run of
  digits; \<open>None\<close> is \<open>NaN\<close>. (The prefix \<open>0x\<close> is not modelled: the function is applied to
  the end of a booking number only, which has no letter x.)
\<close>

definition digits_value :: "string \<Rightarrow> int" where
  "digits_value ds = foldl (\<lambda>acc c. 10 * acc + (int (of_char c) - 48)) 0 ds"

definition parseInt :: "string \<Rightarrow> int option" where
  "parseInt s =
     (let s1 = dropWhile is_space s;
          neg = (s1 \<noteq> [] \<and> hd s1 = CHR ''-'');
          s2 = (if s1 \<noteq> [] \<and> (hd s1 = CHR ''-'' \<or> hd s1 = CHR ''+'') then tl s1 else s1);
          ds = takeWhile is_digit s2
      in if ds = [] then None
         else Some (if neg then - digits_value ds else digits_value ds))"

section \<open>Schema validation of a new booking (the booking model)\<close>

text \<open>
  The \<open>match\<close> validators are regular expressions tested against the whole string. They are
  written as terms and matched by derivatives.
\<close>

datatype rx = Void | Eps | Chars "char \<Rightarrow> bool" | Seq rx rx | Alt rx rx | Star rx

fun nullable :: "rx \<Rightarrow> bool" where
  "nullable Void = False"
| "nullable Eps = True"
| "nullable (Chars P) = False"
| "nullable (Seq r s) = (nullable r \<and> nullable s)"
| "nullable (Alt r s) = (nullable r \<or> nullable s)"
| "nullable (Star r) = True"

fun alt :: "rx \<Rightarrow> rx \<Rightarrow> rx" where
  "alt Void s = s"
| "alt r Void = r"
| "alt r s = Alt r s"

fun seq :: "rx \<Rightarrow> rx \<Rightarrow> rx" where
  "seq Void s = Void"
| "seq Eps s = s"
| "seq r s = Seq r s"

fun deriv :: "char \<Rightarrow> rx \<Rightarrow> rx" where
  "deriv c Void = Void"
| "deriv c Eps = Void"
| "deriv c (Chars P) = (if P c then Eps else Void)"
| "deriv c (Seq r s) =
     (if nullable r then alt (seq (deriv c r) s) (deriv c s) else seq (deriv c r) s)"
| "deriv c (Alt r s) = alt (deriv c r) (deriv c s)"
| "deriv c (Star r) = seq (deriv c r) (Star r)"

definition rx_test :: "rx \<Rightarrow> string \<Rightarrow> bool" where
  "rx_test r s = nullable (foldl (\<lambda>q c. deriv c q) r s)"

definition is_word :: "char \<Rightarrow> bool" where
  "is_word c =
     (is_digit c \<or> c = CHR ''_'' \<or>
      (65 :: nat) \<le> of_char c \<and> (of_char c :: nat) \<le> 90 \<or>
      (97 :: nat) \<le> of_char c \<and> (of_char c :: nat) \<le> 122)"

definition rx_plus :: "rx \<Rightarrow> rx" where
  "rx_plus r = Seq r (Star r)"

definition rx_opt :: "rx \<Rightarrow> rx" where
  "rx_opt r = Alt Eps r"

text \<open>\<open>/^\w+([\.-]?\w+)*@\w+([\.-]?\w+)*(\.\w{2,3})+$/\<close>\<close>

definition email_rx :: rx where
  "email_rx =
     (let w = Chars is_word;
          dot = Chars (\<lambda>c. c = CHR ''.'');
          sep = Chars (\<lambda>c. c = CHR ''.'' \<or> c = CHR ''-'');
          part = Star (Seq (rx_opt sep) (rx_plus w))
      in Seq (rx_plus w) (Seq part (Seq (Chars (\<lambda>c. c = CHR ''@''))
           (Seq (rx_plus w) (Seq part (rx_plus (Seq dot (Seq w (Seq w (rx_opt w))))))))))"

text \<open>\<open>/^[0-9]{10}$/\<close>\<close>

definition phone_rx :: rx where
  "phone_rx = (let d = Chars is_digit in Seq d (Seq d (Seq d (Seq d (Seq d (Seq d (Seq d (Seq d (Seq d d)))))))))"

text \<open>
  \<open>Booking.create\<close> validates the whole document: the required strings are not empty, e-mail
  and phone match their patterns, and there is at least one participant.
\<close>

definition booking_valid :: "booking \<Rightarrow> bool" where
  "booking_valid b =
     (let c = customerDetails b
      in name c \<noteq> [] \<and> email c \<noteq> [] \<and> rx_test email_rx (email c) \<and>
         phone c \<noteq> [] \<and> rx_test phone_rx (phone c) \<and> address c \<noteq> [] \<and>
         startTime (selectedTimeSlot b) \<noteq> [] \<and> endTime (selectedTimeSlot b) \<noteq> [] \<and>
         1 \<le> numberOfParticipants b)"

text \<open>
  The insertion gives the document the next object id; the unique index on
  \<open>bookingNumber\<close> rejects a number that is already stored.
\<close>

definition booking_create :: "store \<Rightarrow> booking \<Rightarrow> db_error + booking \<times> store" where
  "booking_create st doc =
     (let b = doc\<lparr>booking_id := nextId st\<rparr>
      in if \<not> booking_valid b then Inl ValidationError
         else if bookingNumber b \<noteq> None \<and>
                 (\<exists>x \<in> set (bookings st). bookingNumber x = bookingNumber b)
         then Inl DuplicateKey
         else Inr (b, st\<lparr>bookings := bookings st @ [b], nextId := Suc (nextId st)\<rparr>))"

section \<open>Bookings (the booking controller)\<close>

record booking_request =
  activityId :: "oid option"
  req_bookingDate :: "time option"
  req_selectedTimeSlot :: "slot_times option"
  req_numberOfParticipants :: int
  req_customerDetails :: "customer option"

text \<open>
  Steps 1 to 7 of \<open>createBooking\<close>: the checks of the request against the activity. They
  change nothing; they end in a reply, or in the activity, the requested date, the
  customer, the requested slot times and the slot found.
\<close>

definition check_request ::
  "env \<Rightarrow> store \<Rightarrow> booking_request \<Rightarrow> reply + activity \<times> time \<times> customer \<times> slot_times \<times> time_slot" where
  "check_request env st req =
     (case (activityId req, req_bookingDate req, req_selectedTimeSlot req, req_customerDetails req) of
        (Some aid, Some requestedDate, Some sel, Some cust) \<Rightarrow>
          if req_numberOfParticipants req = 0
          then Inl (Reply 400 False ''All fields are required''
                 (Required [''activityId'', ''bookingDate'', ''selectedTimeSlot'',
                            ''numberOfParticipants'', ''customerDetails'']))
          else if name cust = [] \<or> email cust = [] \<or> phone cust = [] \<or> address cust = []
          then Inl (Reply 400 False ''Customer details incomplete''
                 (Required [''name'', ''email'', ''phone'', ''address'']))
          else if startTime sel = [] \<or> endTime sel = []
          then Inl (Reply 400 False ''Time slot must have startTime and endTime'' NoDetail)
          else
         (case findActivityById st aid of
            None \<Rightarrow> Inl (Reply 404 False ''Activity not found'' NoDetail)
          | Some act \<Rightarrow>
              if status act \<noteq> ''Active'' \<or> \<not> isAvailable act
              then Inl (Reply 400 False ''Activity is not available for booking'' NoDetail)
              else if requestedDate < startOfDay env (now env)
              then Inl (Reply 400 False ''Cannot book for past dates'' NoDetail)
              else if requestedDate < startDate act \<or> requestedDate > endDate act
              then Inl (Reply 400 False ''Activity is not available on this date''
                     (AvailableRange (startDate act) (endDate act)))
              else if weekday env requestedDate \<notin> set (availableDays act)
              then Inl (Reply 400 False
                     (''Activity is not available on '' @ weekday env requestedDate)
                     (AvailableDays (availableDays act)))
              else (case find (same_slot sel) (timeSlots act) of
                      None \<Rightarrow> Inl (Reply 400 False ''Invalid time slot''
                                 (AvailableSlots (timeSlots act)))
                    | Some timeSlot \<Rightarrow> Inr (act, requestedDate, cust, sel, timeSlot)))
      | _ \<Rightarrow> Inl (Reply 400 False ''All fields are required''
                 (Required [''activityId'', ''bookingDate'', ''selectedTimeSlot'',
                            ''numberOfParticipants'', ''customerDetails''])))"

text \<open>Step 10, the pricing: \<open>activity.priceAfterDiscount || activity.price\<close>.\<close>

definition pricePerPerson_of :: "activity \<Rightarrow> rat" where
  "pricePerPerson_of act =
     (case priceAfterDiscount act of
        None \<Rightarrow> price act
      | Some p \<Rightarrow> if p = 0 then price act else p)"

text \<open>
  Step 12, the booking number. The last booking of today is the one created latest
  between the local midnight and 23:59:59.999 (among equal creation times, the one
  inserted last).
\<close>

definition lastBookingOfToday :: "env \<Rightarrow> store \<Rightarrow> booking option" where
  "lastBookingOfToday env st =
     (let todayStart = startOfDay env (now env);
          todayEnd = todayStart + (msPerDay - 1)
      in foldl (\<lambda>best b.
                  if todayStart \<le> createdAt b \<and> createdAt b < todayEnd \<and>
                     (case best of None \<Rightarrow> True | Some x \<Rightarrow> createdAt x \<le> createdAt b)
                  then Some b else best)
           None (bookings st))"

definition next_sequence :: "booking option \<Rightarrow> int" where
  "next_sequence lastBooking =
     (case lastBooking of
        None \<Rightarrow> 1
      | Some lb \<Rightarrow>
          (case bookingNumber lb of
             None \<Rightarrow> 1
           | Some num \<Rightarrow>
               if num = [] then 1
               else (case parseInt (slice_last 4 num) of
                       None \<Rightarrow> 1
                     | Some lastSequence \<Rightarrow> lastSequence + 1)))"

definition format_bookingNumber :: "int \<times> int \<times> int \<Rightarrow> int \<Rightarrow> string" where
  "format_bookingNumber ymd sequence =
     (case ymd of
        (y, m, d) \<Rightarrow>
          ''BK-'' @ slice_last 2 (String_of y) @ padStart 2 CHR ''0'' (String_of m) @
          padStart 2 CHR ''0'' (String_of d) @ ''-'' @ padStart 4 CHR ''0'' (String_of sequence))"

definition generate_bookingNumber :: "env \<Rightarrow> store \<Rightarrow> string" where
  "generate_bookingNumber env st =
     format_bookingNumber (local_date env (now env)) (next_sequence (lastBookingOfToday env st))"

text \<open>Step 13, the document handed to \<open>Booking.create\<close>, with the schema's defaults.\<close>

definition new_booking ::
  "env \<Rightarrow> activity \<Rightarrow> time \<Rightarrow> customer \<Rightarrow> slot_times \<Rightarrow> int \<Rightarrow> string \<Rightarrow> booking" where
  "new_booking env act requestedDate cust sel n num =
     \<lparr>booking_id = 0,
      activity_ref = activity_id act,
      customerDetails =
        \<lparr>name = trim (name cust), email = trim (toLowerCase (email cust)),
         phone = trim (phone cust), address = trim (address cust)\<rparr>,
      bookingDate = requestedDate,
      selectedTimeSlot = \<lparr>startTime = startTime sel, endTime = endTime sel\<rparr>,
      numberOfParticipants = n,
      pricePerPerson = pricePerPerson_of act,
      totalAmount = pricePerPerson_of act * of_int n,
      discountAmount = (price act - pricePerPerson_of act) * of_int n,
      finalAmount = pricePerPerson_of act * of_int n,
      bookingStatus = ''Initiated'',
      paymentStatus = ''Pending'',
      transactionId = None, razorpayOrderId = None, razorpayPaymentId = None,
      razorpaySignature = None, paymentMethod = None, paidAt = None,
      qrData = None, qrImage = None,
      checkedIn = False, checkInTime = None, checkInBy = None,
      confirmationDate = None,
      bookingNumber = Some num,
      cancelledAt = None, cancellationReason = None, cancelledBy = None,
      activitySnapshot =
        \<lparr>snap_title = title act, snap_venue = venue act, snap_address = activity_address act,
         snap_city = city act, snap_thumbnailImage = thumbnailImage act\<rparr>,
      createdAt = now env\<rparr>"

definition thrown_reply :: "db_error \<Rightarrow> reply" where
  "thrown_reply e =
     (if e = ValidationError then Reply 400 False ''Validation Error'' (Thrown e)
      else Reply 500 False ''Error creating booking'' (Thrown e))"

text \<open>
  \<open>createBooking\<close>, steps 8 to 14, with the \<open>catch\<close> of the handler in \<open>thrown_reply\<close>. The
  decremented slot is written by \<open>activity.save()\<close> before the number is generated and
  \<open>Booking.create\<close> is called: when the creation throws, the reply is an error and the
  decrement stays in the store.
\<close>

definition createBooking :: "env \<Rightarrow> store \<Rightarrow> booking_request \<Rightarrow> reply \<times> store" where
  "createBooking env st req =
     (case check_request env st req of
        Inl r \<Rightarrow> (r, st)
      | Inr (act, requestedDate, cust, sel, timeSlot) \<Rightarrow>
          (let n = req_numberOfParticipants req
           in if availableSpots timeSlot < n
              then (Reply 400 False ''Not enough spots available''
                      (Spots n (availableSpots timeSlot)), st)
              else if n > maxParticipants act
              then (Reply 400 False
                      (''Maximum '' @ String_of (maxParticipants act) @ '' participants allowed'')
                      NoDetail, st)
              else
             (case findIndex (same_slot sel) (timeSlots act) of
                None \<Rightarrow> (Reply 500 False ''Error creating booking'' NoDetail, st)
              | Some slotIndex \<Rightarrow>
                 (case activity_save st act (add_spots act slotIndex (- n)) of
                    Inl e \<Rightarrow> (thrown_reply e, st)
                  | Inr st1 \<Rightarrow>
                     (let num = generate_bookingNumber env st1
                      in case booking_create st1
                                (new_booking env act requestedDate cust sel n num) of
                           Inl e \<Rightarrow> (thrown_reply e, st1)
                         | Inr (b, st2) \<Rightarrow>
                             (Reply 201 True
                                ''Booking initiated successfully. Please proceed to payment.''
                                (BookingData (booking_id b) (bookingNumber b) (finalAmount b)
                                   ''INR''), st2))))))"

text \<open>
  \<open>cancelBooking\<close> (administrators only). The id is a well-formed object id, \<open>reason\<close> is
  \<open>req.body.reason\<close> (empty when absent) and \<open>user\<close> is \<open>req.user._id\<close>.
\<close>

definition cancelBooking ::
  "env \<Rightarrow> store \<Rightarrow> oid \<Rightarrow> string \<Rightarrow> oid \<Rightarrow> reply \<times> store" where
  "cancelBooking env st i reason user =
     (case findBookingById st i of
        None \<Rightarrow> (Reply 404 False ''Booking not found'' NoDetail, st)
      | Some b \<Rightarrow>
          if paymentStatus b = ''Completed''
          then (Reply 400 False
                  ''Cannot cancel completed bookings. Please process refund first.'' NoDetail, st)
          else (case restore_spots st b of
                  Inl e \<Rightarrow> (Reply 500 False ''Error cancelling booking'' (Thrown e), st)
                | Inr st1 \<Rightarrow>
                    (let b' = b\<lparr>bookingStatus := ''Cancelled'',
                                cancelledAt := Some (now env),
                                cancellationReason := Some (or_else (Some reason) ''Cancelled by admin''),
                                cancelledBy := Some user\<rparr>
                     in case booking_save st1 b b' of
                          Inl e \<Rightarrow> (Reply 500 False ''Error cancelling booking'' (Thrown e), st1)
                        | Inr st2 \<Rightarrow>
                            (Reply 200 True ''Booking cancelled successfully'' (CancelledData b'),
                             st2))))"

section \<open>Scanning at the gate (controllers/qrController.js)\<close>

text \<open>
  \<open>scanQR\<close>, its checks in the order of the source; \<open>user\<close> is \<open>req.user._id\<close>. The booking is
  loaded with its activity populated, and the reply reads the title of the activity after
  the check-in has been saved: when the activity no longer exists that read throws. (The
  success message of the source starts with a check-mark character, which is left out.)
\<close>

definition scanQR :: "env \<Rightarrow> store \<Rightarrow> string \<Rightarrow> oid \<Rightarrow> reply \<times> store" where
  "scanQR env st qrData_in user =
     (if qrData_in = [] then (Reply 400 False ''QR data is required'' NoDetail, st)
      else
     (case decryptQRData env qrData_in of
        None \<Rightarrow> (Reply 400 False ''Invalid or corrupted QR code'' NoDetail, st)
      | Some decryptedData \<Rightarrow>
     (case findBookingById st (qr_bookingId decryptedData) of
        None \<Rightarrow> (Reply 404 False ''Booking not found'' NoDetail, st)
      | Some b \<Rightarrow>
          if bookingStatus b \<noteq> ''Confirmed''
          then (Reply 400 False ''Booking is not confirmed'' (CurrentStatus (bookingStatus b)), st)
          else if paymentStatus b \<noteq> ''Completed''
          then (Reply 400 False ''Payment not completed'' (CurrentStatus (paymentStatus b)), st)
          else if checkedIn b
          then (Reply 400 False ''Already checked in''
                  (CheckedInAt (checkInTime b) (checkInBy b)), st)
          else if startOfDay env (bookingDate b) \<noteq> startOfDay env (now env)
          then (Reply 400 False ''This booking is not for today''
                  (NotToday (bookingDate b) (startOfDay env (now env))), st)
          else
            (let b' = b\<lparr>checkedIn := True,
                        checkInTime := Some (now env),
                        checkInBy := Some user,
                        bookingStatus := ''Completed''\<rparr>
             in case booking_save st b b' of
                  Inl e \<Rightarrow> (Reply 500 False ''Error processing QR code'' (Thrown e), st)
                | Inr st' \<Rightarrow>
                    (case findActivityById st (activity_ref b) of
                       None \<Rightarrow> (Reply 500 False ''Error processing QR code'' NoDetail, st')
                     | Some a \<Rightarrow>
                         (Reply 200 True ''Check-in successful!''
                            (CheckInData (bookingNumber b') (name (customerDetails b'))
                               (title a) (numberOfParticipants b') (checkInTime b')), st'))))))"

section \<open>Reading the ledger\<close>

text \<open>
  The remaining spots of the slot of an activity, as a client would read them back, and the
  condition under which the \<open>pre('save')\<close> hook of the activity does not throw on its age
  range.
\<close>

definition spots_of :: "store \<Rightarrow> oid \<Rightarrow> slot_times \<Rightarrow> int option" where
  "spots_of st aid sel =
     (case findActivityById st aid of
        None \<Rightarrow> None
      | Some a \<Rightarrow> map_option availableSpots (find (same_slot sel) (timeSlots a)))"

definition age_range_ok :: "activity \<Rightarrow> bool" where
  "age_range_ok a = (\<not> (truthy (minAge a) \<and> truthy (maxAge a) \<and> the (maxAge a) < the (minAge a)))"

section \<open>A concrete day at the club\<close>

text \<open>
  One activity with a single slot of five spots, a customer who books two of them on
  Wednesday 15 January 2025, and the stores that booking passes through: created, with a
  payment order, paid. The properties are evaluated on this day.
\<close>

definition demo_sel :: slot_times where
  "demo_sel = \<lparr>startTime = ''10:00'', endTime = ''11:00''\<rparr>"

text \<open>
  The stand-ins of this day for the library calls: a serialisation of the payload as
  fields separated by bars and its parser, a cipher that adds the bytes of key and IV to
  every byte of the text and its inverse (which, like AES-256-CBC, wants an IV of 16
  bytes), a key derivation that takes the bytes of the secret, and an HMAC that prefixes
  the key.
\<close>

definition demo_stringify :: "qr_payload \<Rightarrow> string" where
  "demo_stringify d =
     String_of (int (qr_bookingId d)) @ ''|'' @
     (case qr_bookingNumber d of None \<Rightarrow> [] | Some s \<Rightarrow> s) @ ''|'' @
     qr_customerName d @ ''|'' @ qr_customerPhone d @ ''|'' @
     String_of (int (qr_activityId d)) @ ''|'' @ String_of (qr_bookingDate d) @ ''|'' @
     String_of (qr_numberOfParticipants d) @ ''|'' @
     startTime (qr_timeSlot d) @ ''|'' @ endTime (qr_timeSlot d) @ ''|'' @
     String_of (qr_timestamp d)"

definition demo_parse :: "string \<Rightarrow> qr_payload option" where
  "demo_parse s =
     (let fs = split_on CHR ''|'' s
      in if length fs \<noteq> 10 then None
         else (case parseInt (fs ! 0) of None \<Rightarrow> None | Some bid \<Rightarrow>
              (case parseInt (fs ! 4) of None \<Rightarrow> None | Some aid \<Rightarrow>
              (case parseInt (fs ! 5) of None \<Rightarrow> None | Some date \<Rightarrow>
              (case parseInt (fs ! 6) of None \<Rightarrow> None | Some n \<Rightarrow>
              (case parseInt (fs ! 9) of None \<Rightarrow> None | Some ts \<Rightarrow>
                 Some \<lparr>qr_bookingId = nat bid,
                       qr_bookingNumber = (if fs ! 1 = [] then None else Some (fs ! 1)),
                       qr_customerName = fs ! 2, qr_customerPhone = fs ! 3,
                       qr_activityId = nat aid, qr_bookingDate = date,
                       qr_numberOfParticipants = n,
                       qr_timeSlot = \<lparr>startTime = fs ! 7, endTime = fs ! 8\<rparr>,
                       qr_timestamp = ts\<rparr>))))))"

definition demo_cipher :: "byte list \<Rightarrow> byte list \<Rightarrow> string \<Rightarrow> byte list" where
  "demo_cipher k iv m = map (\<lambda>c. of_nat (of_char c) + sum_list iv + sum_list k) m"

definition demo_decipher :: "byte list \<Rightarrow> byte list \<Rightarrow> byte list \<Rightarrow> string option" where
  "demo_decipher k iv c =
     (if length iv = 16
      then Some (map (\<lambda>w. char_of (unat (w - sum_list iv - sum_list k))) c)
      else None)"

definition demo_json_body :: "string \<times> payload_read \<Rightarrow> string" where
  "demo_json_body ep =
     (case snd ep of
        Entity p \<Rightarrow> fst ep @ order_id p
      | _ \<Rightarrow> fst ep)"

definition demo_env :: env where
  "demo_env =
     \<lparr>now = 1736935200000, tzOffset = 0,
      RAZORPAY_KEY_SECRET = ''S'', RAZORPAY_WEBHOOK_SECRET = ''W'', QR_SECRET = [],
      hmac_sha256_hex = (\<lambda>k m. k @ m),
      scryptSync = (\<lambda>s. map (\<lambda>c. of_nat (of_char c)) s),
      randomBytes16 = [1, 2, 3, 4, 5, 6, 7, 8, 9, 10, 11, 12, 13, 14, 15, 255],
      cipher = demo_cipher,
      decipher = demo_decipher,
      json_stringify = demo_stringify,
      json_parse = demo_parse,
      json_body = demo_json_body,
      toDataURL = (\<lambda>s. Some (''png:'' @ s)),
      orders_create = (\<lambda>opts. Some \<lparr>order_ident = ''order_abc'', order_amount = amount opts, order_currency = currency opts\<rparr>),
      payments_fetch = (\<lambda>p. Some (Some ''Card''))\<rparr>"

definition demo_slot :: time_slot where
  "demo_slot = \<lparr>startTime = ''10:00'', endTime = ''11:00'', availableSpots = 5\<rparr>"

definition demo_activity :: activity where
  "demo_activity =
     \<lparr>activity_id = 1, title = ''Zipline'', venue = ''Hill Park'', activity_address = ''1 Lake Road'',
      city = ''Pune'', thumbnailImage = [], status = ''Active'', isAvailable = True,
      startDate = 1735689600000, endDate = 1767225600000,
      availableDays = [''Monday'', ''Wednesday'', ''Saturday''],
      timeSlots = [demo_slot],
      price = 500, discountPercentage = Some 10, priceAfterDiscount = Some 450,
      maxParticipants = 3, minAge = None, maxAge = None\<rparr>"

definition demo_store :: store where
  "demo_store = \<lparr>activities = [demo_activity], bookings = [], nextId = 100, outbox = []\<rparr>"

definition demo_customer :: customer where
  "demo_customer = \<lparr>name = ''Asha'', email = ''A@b.co'', phone = ''9876543210'', address = ''12 MG Road''\<rparr>"

definition demo_request :: "int \<Rightarrow> booking_request" where
  "demo_request n =
     \<lparr>activityId = Some 1, req_bookingDate = Some 1736899200000,
      req_selectedTimeSlot = Some demo_sel,
      req_numberOfParticipants = n,
      req_customerDetails = Some demo_customer\<rparr>"

definition demo_booking :: booking where
  "demo_booking =
     (new_booking demo_env demo_activity 1736899200000 demo_customer demo_sel 2 ''BK-250115-0001'')
       \<lparr>booking_id := 100\<rparr>"

definition booked_activity :: activity where
  "booked_activity = demo_activity\<lparr>timeSlots := [demo_slot\<lparr>availableSpots := 3\<rparr>]\<rparr>"

definition created_store :: store where
  "created_store =
     \<lparr>activities = [booked_activity], bookings = [demo_booking], nextId = 101, outbox = []\<rparr>"

definition pending_booking :: booking where
  "pending_booking = demo_booking\<lparr>razorpayOrderId := Some ''order_abc''\<rparr>"

definition pending_store :: store where
  "pending_store = created_store\<lparr>bookings := [pending_booking]\<rparr>"

definition paying_env :: env where
  "paying_env = demo_env\<lparr>now := 1736930000000\<rparr>"

definition paid_booking :: booking where
  "paid_booking =
     pending_booking\<lparr>paymentStatus := ''Completed'', bookingStatus := ''Confirmed'',
       razorpayPaymentId := Some ''pay_1'', transactionId := Some ''pay_1'',
       paymentMethod := Some ''UPI'', paidAt := Some 1736930000000,
       confirmationDate := Some 1736930000000,
       qrData := Some (generateQRData paying_env pending_booking),
       qrImage := Some (''png:'' @ generateQRData paying_env pending_booking)\<rparr>"

definition demo_payload :: "time \<Rightarrow> qr_payload" where
  "demo_payload t =
     \<lparr>qr_bookingId = 100, qr_bookingNumber = Some ''BK-250115-0001'',
      qr_customerName = ''Asha'', qr_customerPhone = ''9876543210'', qr_activityId = 1,
      qr_bookingDate = 1736899200000, qr_numberOfParticipants = 2,
      qr_timeSlot = \<lparr>startTime = ''10:00'', endTime = ''11:00''\<rparr>, qr_timestamp = t\<rparr>"

definition second_payload :: qr_payload where
  "second_payload =
     \<lparr>qr_bookingId = 101, qr_bookingNumber = Some ''BK-250115-0002'',
      qr_customerName = ''Ravi'', qr_customerPhone = ''9123456780'', qr_activityId = 1,
      qr_bookingDate = 1736899200000, qr_numberOfParticipants = 1,
      qr_timeSlot = \<lparr>startTime = ''10:00'', endTime = ''11:00''\<rparr>,
      qr_timestamp = 1736935200000\<rparr>"

definition second_booking :: booking where
  "second_booking =
     (new_booking demo_env demo_activity 1736899200000
        (demo_customer\<lparr>name := ''Ravi'', phone := ''9123456780''\<rparr>) demo_sel 1 ''BK-250115-0002'')
       \<lparr>booking_id := 101\<rparr>"

definition paid_store :: store where
  "paid_store = created_store\<lparr>bookings := [paid_booking]\<rparr>"

definition free_activity :: activity where
  "free_activity = demo_activity\<lparr>discountPercentage := Some 100, priceAfterDiscount := Some 0\<rparr>"

definition free_store :: store where
  "free_store = demo_store\<lparr>activities := [free_activity]\<rparr>"

definition busy_store :: "string \<Rightarrow> store" where
  "busy_store lastNumber =
     created_store\<lparr>bookings :=
       [demo_booking,
        demo_booking\<lparr>booking_id := 101, bookingNumber := Some lastNumber,
          createdAt := 1736935300000\<rparr>],
       nextId := 102\<rparr>"

definition later_env :: env where
  "later_env =
     demo_env\<lparr>now := 1736935400000,
       randomBytes16 := [16, 15, 14, 13, 12, 11, 10, 9, 8, 7, 6, 5, 4, 3, 2, 1]\<rparr>"

definition roomy_activity :: activity where
  "roomy_activity = demo_activity\<lparr>maxParticipants := 10\<rparr>"

definition roomy_store :: store where
  "roomy_store = demo_store\<lparr>activities := [roomy_activity]\<rparr>"

definition verify_request_of :: "string \<Rightarrow> verify_request" where
  "verify_request_of s =
     \<lparr>razorpay_order_id = ''order_abc'', razorpay_payment_id = ''pay_2'',
      razorpay_signature = s, bookingId = Some 100\<rparr>"

definition webhook_with :: "string \<Rightarrow> string \<Rightarrow> string option \<Rightarrow> webhook_request" where
  "webhook_with ev ord meth =
     \<lparr>x_razorpay_signature = Some (''W'' @ ev @ ord), event = ev,
      body_payload = Entity \<lparr>order_id = ord, payment_id = ''pay_2'', payment_method = meth\<rparr>\<rparr>"

definition webhook_of :: "string \<Rightarrow> string \<Rightarrow> webhook_request" where
  "webhook_of ev ord = webhook_with ev ord (Some ''upi'')"

definition bare_webhook :: "string \<Rightarrow> payload_read \<Rightarrow> webhook_request" where
  "bare_webhook ev r = \<lparr>x_razorpay_signature = Some (''W'' @ ev), event = ev, body_payload = r\<rparr>"

section \<open>Facts about the store\<close>

lemma replicate_numeral [simp]: "replicate (numeral k) x = x # replicate (pred_numeral k) x"
  by (simp add: numeral_eq_Suc)

lemma find_replace:
  "find (\<lambda>b. booking_id b = i) bs = Some b \<Longrightarrow> booking_id new = i \<Longrightarrow>
   find (\<lambda>b. booking_id b = i) (map (\<lambda>x. if booking_id x = i then new else x) bs) = Some new"
  by (induction bs) (auto split: if_splits)

lemma findBookingById_id: "findBookingById st i = Some b \<Longrightarrow> booking_id b = i"
  by (auto simp: findBookingById_def find_Some_iff)

lemma booking_save_result:
  "booking_save st old new = Inr st' \<Longrightarrow>
   st' = st\<lparr>bookings := map (\<lambda>b. if booking_id b = booking_id new then new else b) (bookings st)\<rparr>"
  by (auto simp: booking_save_def split: if_splits)

lemma booking_save_lookup:
  assumes "findBookingById st i = Some old" and "booking_id new = i"
    and "booking_save st old new = Inr st'"
  shows "findBookingById st' i = Some new"
  using assms(1,2) booking_save_result[OF assms(3)]
  by (simp add: findBookingById_def find_replace)

lemma booking_save_activities: "booking_save st old new = Inr st' \<Longrightarrow> activities st' = activities st"
  by (drule booking_save_result) simp

lemma booking_save_same_method:
  "paymentMethod new = paymentMethod old \<Longrightarrow> \<exists>st'. booking_save st old new = Inr st'"
  by (simp add: booking_save_def)

lemma find_activity_replace:
  "find (\<lambda>a. activity_id a = i) xs = Some a \<Longrightarrow> activity_id new = i \<Longrightarrow>
   find (\<lambda>a. activity_id a = i) (map (\<lambda>x. if activity_id x = i then new else x) xs) = Some new"
  by (induction xs) (auto split: if_splits)

lemma findActivityById_id: "findActivityById st i = Some a \<Longrightarrow> activity_id a = i"
  by (auto simp: findActivityById_def find_Some_iff)

lemma find_findIndex:
  "find P xs = Some x \<Longrightarrow> \<exists>i. findIndex P xs = Some i \<and> i < length xs \<and> xs ! i = x"
proof (induction xs)
  case Nil
  then show ?case by simp
next
  case (Cons y ys)
  show ?case
  proof (cases "P y")
    case True
    with Cons.prems show ?thesis by simp
  next
    case False
    with Cons.prems have "find P ys = Some x" by simp
    from Cons.IH[OF this] obtain i where "findIndex P ys = Some i" "i < length ys" "ys ! i = x"
      by blast
    with False show ?thesis by simp
  qed
qed

lemma findIndex_find:
  "findIndex P xs = Some i \<Longrightarrow> i < length xs \<and> find P xs = Some (xs ! i)"
proof (induction xs arbitrary: i)
  case Nil
  then show ?case by simp
next
  case (Cons y ys)
  show ?case
  proof (cases "P y")
    case True
    with Cons.prems show ?thesis by simp
  next
    case False
    with Cons.prems obtain j where j: "findIndex P ys = Some j" "i = Suc j"
      by (auto split: option.splits)
    from Cons.IH[OF j(1)] False j(2) show ?thesis by simp
  qed
qed

lemma find_update_first:
  "findIndex P xs = Some i \<Longrightarrow> P y \<Longrightarrow> find P (xs[i := y]) = Some y"
proof (induction xs arbitrary: i)
  case Nil
  then show ?case by simp
next
  case (Cons z zs)
  show ?case
  proof (cases "P z")
    case True
    with Cons.prems show ?thesis by simp
  next
    case False
    with Cons.prems obtain j where j: "findIndex P zs = Some j" "i = Suc j"
      by (auto split: option.splits)
    from Cons.IH[OF j(1) Cons.prems(2)] False j(2) show ?thesis by simp
  qed
qed

text \<open>What a successful \<open>activity.save()\<close> after a change of one slot leaves in the store.\<close>

lemma add_spots_saved:
  assumes found: "findActivityById st aid = Some a"
    and idx: "findIndex (same_slot sel) (timeSlots a) = Some i"
    and saved: "activity_save st a (add_spots a i k) = Inr st'"
  shows "spots_of st' aid sel = Some (availableSpots (timeSlots a ! i) + k)"
    and "bookings st' = bookings st" and "nextId st' = nextId st" and "outbox st' = outbox st"
proof -
  from saved obtain a1 where hook: "activity_pre_save (add_spots a i k) = Inr a1"
    and st': "st' = st\<lparr>activities :=
        map (\<lambda>x. if activity_id x = activity_id a1 then a1 else x) (activities st)\<rparr>"
    by (auto simp: activity_save_def split: if_splits sum.splits)
  from hook have slots: "timeSlots a1 = timeSlots (add_spots a i k)"
    and id1: "activity_id a1 = activity_id a"
    by (auto simp: activity_pre_save_def add_spots_def Let_def split: if_splits option.splits)
  from findActivityById_id[OF found] id1 have id: "activity_id a1 = aid" by simp
  from found id st' have look: "findActivityById st' aid = Some a1"
    by (simp add: findActivityById_def find_activity_replace)
  from findIndex_find[OF idx] have i: "i < length (timeSlots a)"
    and same: "same_slot sel (timeSlots a ! i)"
    by (auto simp: find_Some_iff)
  let ?y = "(timeSlots a ! i)\<lparr>availableSpots := availableSpots (timeSlots a ! i) + k\<rparr>"
  from same have "same_slot sel ?y" by (simp add: same_slot_def)
  from find_update_first[OF idx this]
  have "find (same_slot sel) (timeSlots a1) = Some ?y"
    by (simp add: slots add_spots_def)
  with look show "spots_of st' aid sel = Some (availableSpots (timeSlots a ! i) + k)"
    by (simp add: spots_of_def)
  from st' show "bookings st' = bookings st" "nextId st' = nextId st" "outbox st' = outbox st"
    by simp_all
qed

lemma modified_slots_valid_update:
  "i < length xs \<Longrightarrow> k = 0 \<or> 1 \<le> availableSpots (xs ! i) + k \<Longrightarrow>
   modified_slots_valid xs (xs[i := (xs ! i)\<lparr>availableSpots := availableSpots (xs ! i) + k\<rparr>])"
  by (auto simp: modified_slots_valid_def list_all_iff set_zip nth_list_update)

lemma activity_save_ok:
  assumes "i < length (timeSlots a)"
    and "k = 0 \<or> 1 \<le> availableSpots (timeSlots a ! i) + k"
    and "startDate a \<le> endDate a" and "age_range_ok a"
  shows "\<exists>st'. activity_save st a (add_spots a i k) = Inr st'"
proof -
  have "modified_slots_valid (timeSlots a) (timeSlots (add_spots a i k))"
    using modified_slots_valid_update[OF assms(1,2)] by (simp add: add_spots_def)
  moreover have "\<exists>a1. activity_pre_save (add_spots a i k) = Inr a1"
    using assms(3,4)
    by (auto simp: activity_pre_save_def add_spots_def age_range_ok_def Let_def split: option.splits)
  ultimately show ?thesis
    by (auto simp: activity_save_def)
qed

section \<open>Reserving capacity\<close>

lemma check_request_Inr:
  assumes "check_request env st req = Inr (act, d, cust, sel, slot)"
  shows "findActivityById st (activity_id act) = Some act"
    and "find (same_slot sel) (timeSlots act) = Some slot"
    and "startDate act \<le> d" and "d \<le> endDate act"
    and "req_numberOfParticipants req \<noteq> 0"
    and "req_bookingDate req = Some d" and "req_customerDetails req = Some cust"
    and "req_selectedTimeSlot req = Some sel"
proof -
  from assms obtain aid where a: "activityId req = Some aid" "req_bookingDate req = Some d"
    "req_selectedTimeSlot req = Some sel" "req_customerDetails req = Some cust"
    "findActivityById st aid = Some act"
    "find (same_slot sel) (timeSlots act) = Some slot"
    "\<not> d < startDate act" "\<not> d > endDate act" "req_numberOfParticipants req \<noteq> 0"
    by (auto simp: check_request_def split: option.splits if_splits)
  from findActivityById_id[OF a(5)] a
  show "findActivityById st (activity_id act) = Some act"
    and "find (same_slot sel) (timeSlots act) = Some slot"
    and "startDate act \<le> d" and "d \<le> endDate act"
    and "req_numberOfParticipants req \<noteq> 0"
    and "req_bookingDate req = Some d" and "req_customerDetails req = Some cust"
    and "req_selectedTimeSlot req = Some sel"
    by auto
qed

lemma generate_bookingNumber_cong:
  "bookings st' = bookings st \<Longrightarrow> generate_bookingNumber env st' = generate_bookingNumber env st"
  by (simp add: generate_bookingNumber_def lastBookingOfToday_def)

lemma booking_create_frame:
  "booking_create st doc = Inr (b, st') \<Longrightarrow>
     activities st' = activities st \<and> b = doc\<lparr>booking_id := nextId st\<rparr> \<and>
     bookings st' = bookings st @ [b]"
  by (auto simp: booking_create_def Let_def split: if_splits)

lemma spots_of_cong: "activities st' = activities st \<Longrightarrow> spots_of st' = spots_of st"
  by (rule ext, rule ext) (simp add: spots_of_def findActivityById_def)

text \<open>
  The path of \<open>createBooking\<close> that stores a booking: the write of the decremented slot is
  accepted, the new document is valid and its number is not in use.
\<close>

lemma createBooking_success:
  assumes chk: "check_request env st req = Inr (act, requestedDate, cust, sel, timeSlot)"
    and ok: "req_numberOfParticipants req \<le> availableSpots timeSlot"
      "req_numberOfParticipants req \<le> maxParticipants act"
      "1 \<le> availableSpots timeSlot - req_numberOfParticipants req" "age_range_ok act"
  shows "spots_of (snd (createBooking env st req)) (activity_id act) sel =
           Some (availableSpots timeSlot - req_numberOfParticipants req)"
    and "booking_valid (new_booking env act requestedDate cust sel
             (req_numberOfParticipants req) (generate_bookingNumber env st)) \<Longrightarrow>
         Some (generate_bookingNumber env st) \<notin> bookingNumber ` set (bookings st) \<Longrightarrow>
           status_code (fst (createBooking env st req)) = 201 \<and>
           bookings (snd (createBooking env st req)) =
             bookings st @
             [(new_booking env act requestedDate cust sel (req_numberOfParticipants req)
                 (generate_bookingNumber env st))\<lparr>booking_id := nextId st\<rparr>]"
proof -
  let ?n = "req_numberOfParticipants req"
  let ?R = "createBooking env st req"
  note facts = check_request_Inr[OF chk]
  from find_findIndex[OF facts(2)] obtain i where
    idx: "findIndex (same_slot sel) (timeSlots act) = Some i"
    and i: "i < length (timeSlots act)" and at: "timeSlots act ! i = timeSlot"
    by blast
  from facts(3,4) have dates: "startDate act \<le> endDate act" by simp
  from ok at have "- ?n = 0 \<or> 1 \<le> availableSpots (timeSlots act ! i) + - ?n" by simp
  from activity_save_ok[OF i this dates] ok obtain st1 where
    saved: "activity_save st act (add_spots act i (- ?n)) = Inr st1"
    by blast
  note st1 = add_spots_saved[OF facts(1) idx saved]
  let ?doc = "new_booking env act requestedDate cust sel ?n (generate_bookingNumber env st)"
  have num: "generate_bookingNumber env st1 = generate_bookingNumber env st"
    using st1(2) by (rule generate_bookingNumber_cong)
  have R: "?R = (case booking_create st1 ?doc of
                   Inl e \<Rightarrow> (thrown_reply e, st1)
                 | Inr (b, st2) \<Rightarrow>
                     (Reply 201 True ''Booking initiated successfully. Please proceed to payment.''
                        (BookingData (booking_id b) (bookingNumber b) (finalAmount b) ''INR''), st2))"
    using chk ok idx saved num by (simp add: createBooking_def)
  have "activities (snd ?R) = activities st1"
    unfolding R by (auto split: sum.splits dest: booking_create_frame)
  from spots_of_cong[OF this] st1(1) at
  show "spots_of (snd ?R) (activity_id act) sel = Some (availableSpots timeSlot - ?n)"
    by simp
  assume valid: "booking_valid ?doc"
    and fresh: "Some (generate_bookingNumber env st) \<notin> bookingNumber ` set (bookings st)"
  have "booking_valid (?doc\<lparr>booking_id := nextId st1\<rparr>)"
    using valid by (simp add: booking_valid_def)
  moreover have "bookingNumber ?doc = Some (generate_bookingNumber env st)"
    by (simp add: new_booking_def)
  moreover have "\<not> (\<exists>x \<in> set (bookings st1). bookingNumber x = Some (generate_bookingNumber env st))"
    using fresh st1(2) by force
  ultimately have created: "booking_create st1 ?doc =
      Inr (?doc\<lparr>booking_id := nextId st1\<rparr>,
           st1\<lparr>bookings := bookings st1 @ [?doc\<lparr>booking_id := nextId st1\<rparr>],
               nextId := Suc (nextId st1)\<rparr>)"
    by (simp add: booking_create_def Let_def)
  show "status_code (fst ?R) = 201 \<and> bookings (snd ?R) = bookings st @ [?doc\<lparr>booking_id := nextId st\<rparr>]"
    unfolding R created using st1(2,3) by simp
qed

lemma modified_slots_invalid:
  assumes "i < length xs" and "availableSpots y \<noteq> availableSpots (xs ! i)"
    and "availableSpots y < 1"
  shows "\<not> modified_slots_valid xs (xs[i := y])"
proof -
  have "(xs ! i, y) \<in> set (zip xs (xs[i := y]))"
    using assms(1) by (auto simp: set_zip intro!: exI[of _ i])
  with assms(2,3) show ?thesis
    by (auto simp: modified_slots_valid_def list_all_iff)
qed

text \<open>
  Claim C1 fails when a request takes every spot that remains. For every booking request
  that passes the checks up to the slot match, asks for exactly the slot's \<open>availableSpots\<close>
  and is within \<open>maxParticipants\<close> of the activity: the slot has as many spots as are
  requested, yet nothing is reserved and the booking does not proceed. The handler assigns
  \<open>availableSpots\<close> 0, \<open>activity.save()\<close> refuses that value against the schema's \<open>min: 1\<close>,
  and the reply is 400 \<open>Validation Error\<close>, not the capacity error with the remaining count.
  The store is as before, so the slot still has all the requested spots.
\<close>

theorem createBooking_last_spots:
  assumes chk: "check_request env st req = Inr (act, requestedDate, cust, sel, timeSlot)"
    and all: "req_numberOfParticipants req = availableSpots timeSlot"
    and max: "req_numberOfParticipants req \<le> maxParticipants act"
  shows "createBooking env st req =
           (Reply 400 False ''Validation Error'' (Thrown ValidationError), st)
       \<and> spots_of st (activity_id act) sel = Some (req_numberOfParticipants req)"
proof -
  let ?n = "req_numberOfParticipants req"
  note facts = check_request_Inr[OF chk]
  from find_findIndex[OF facts(2)] obtain i where
    idx: "findIndex (same_slot sel) (timeSlots act) = Some i"
    and i: "i < length (timeSlots act)" and at: "timeSlots act ! i = timeSlot"
    by blast
  have "\<not> modified_slots_valid (timeSlots act) (timeSlots (add_spots act i (- ?n)))"
    unfolding add_spots_def using facts(5) all at
    by (simp add: modified_slots_invalid[OF i])
  then have "activity_save st act (add_spots act i (- ?n)) = Inl ValidationError"
    by (simp add: activity_save_def)
  then have "createBooking env st req =
           (Reply 400 False ''Validation Error'' (Thrown ValidationError), st)"
    using chk all max idx by (simp add: createBooking_def thrown_reply_def)
  moreover have "spots_of st (activity_id act) sel = Some (req_numberOfParticipants req)"
    using facts(1,2) all by (simp add: spots_of_def)
  ultimately show ?thesis by simp
qed

text \<open>
  A negative number of participants passes every check of the handler (only 0 is falsy):
  the slot grows by that number, and the request fails only afterwards, in
  \<open>Booking.create\<close>, with the grown slot left in the store.
\<close>

lemma createBooking_negative_participants:
  assumes chk: "check_request env st req = Inr (act, requestedDate, cust, sel, timeSlot)"
    and neg: "req_numberOfParticipants req < 0"
    and sane: "0 \<le> availableSpots timeSlot" "0 \<le> maxParticipants act" "age_range_ok act"
  shows "fst (createBooking env st req) =
           Reply 400 False ''Validation Error'' (Thrown ValidationError)
       \<and> spots_of (snd (createBooking env st req)) (activity_id act) sel =
           Some (availableSpots timeSlot - req_numberOfParticipants req)"
proof -
  let ?n = "req_numberOfParticipants req"
  let ?R = "createBooking env st req"
  note facts = check_request_Inr[OF chk]
  from find_findIndex[OF facts(2)] obtain i where
    idx: "findIndex (same_slot sel) (timeSlots act) = Some i"
    and i: "i < length (timeSlots act)" and at: "timeSlots act ! i = timeSlot"
    by blast
  from facts(3,4) have dates: "startDate act \<le> endDate act" by simp
  from neg sane at have "- ?n = 0 \<or> 1 \<le> availableSpots (timeSlots act ! i) + - ?n" by simp
  from activity_save_ok[OF i this dates sane(3)] obtain st1 where
    saved: "activity_save st act (add_spots act i (- ?n)) = Inr st1"
    by blast
  note st1 = add_spots_saved[OF facts(1) idx saved]
  have "\<not> booking_valid ((new_booking env act requestedDate cust sel ?n
            (generate_bookingNumber env st1))\<lparr>booking_id := nextId st1\<rparr>)"
    using neg by (simp add: booking_valid_def new_booking_def Let_def)
  then have "booking_create st1
       (new_booking env act requestedDate cust sel ?n (generate_bookingNumber env st1))
     = Inl ValidationError"
    by (simp add: booking_create_def Let_def)
  then have "?R = (Reply 400 False ''Validation Error'' (Thrown ValidationError), st1)"
    using chk neg sane idx saved by (simp add: createBooking_def thrown_reply_def)
  with st1(1) at show ?thesis by simp
qed

text \<open>
  The capacity step of \<open>createBooking\<close> in the cases where the store accepts the write: too
  few spots, too many participants for one booking, and a decrement that leaves at least
  one spot.
\<close>

lemma createBooking_reserves:
  assumes chk: "check_request env st req = Inr (act, requestedDate, cust, sel, timeSlot)"
  shows "(availableSpots timeSlot < req_numberOfParticipants req \<longrightarrow>
            createBooking env st req =
              (Reply 400 False ''Not enough spots available''
                 (Spots (req_numberOfParticipants req) (availableSpots timeSlot)), st))
       \<and> (req_numberOfParticipants req \<le> availableSpots timeSlot \<and>
          maxParticipants act < req_numberOfParticipants req \<longrightarrow>
            status_code (fst (createBooking env st req)) = 400 \<and>
            snd (createBooking env st req) = st)
       \<and> (req_numberOfParticipants req \<le> availableSpots timeSlot \<and>
          req_numberOfParticipants req \<le> maxParticipants act \<and>
          1 \<le> availableSpots timeSlot - req_numberOfParticipants req \<and> age_range_ok act \<longrightarrow>
            spots_of (snd (createBooking env st req)) (activity_id act) sel =
              Some (availableSpots timeSlot - req_numberOfParticipants req) \<and>
            (booking_valid (new_booking env act requestedDate cust sel
                 (req_numberOfParticipants req) (generate_bookingNumber env st)) \<and>
             Some (generate_bookingNumber env st) \<notin> bookingNumber ` set (bookings st) \<longrightarrow>
               status_code (fst (createBooking env st req)) = 201 \<and>
               bookings (snd (createBooking env st req)) =
                 bookings st @
                 [(new_booking env act requestedDate cust sel (req_numberOfParticipants req)
                     (generate_bookingNumber env st))\<lparr>booking_id := nextId st\<rparr>]))"
proof (intro conjI impI)
  let ?n = "req_numberOfParticipants req"
  let ?R = "createBooking env st req"
  {
    assume "availableSpots timeSlot < ?n"
    then show "?R = (Reply 400 False ''Not enough spots available''
                 (Spots ?n (availableSpots timeSlot)), st)"
      using chk by (simp add: createBooking_def)
  }
  {
    assume "?n \<le> availableSpots timeSlot \<and> maxParticipants act < ?n"
    then have "?R = (Reply 400 False
          (''Maximum '' @ String_of (maxParticipants act) @ '' participants allowed'') NoDetail, st)"
      using chk by (simp add: createBooking_def)
    then show "status_code (fst ?R) = 400" and "snd ?R = st" by simp_all
  }
  assume ok: "?n \<le> availableSpots timeSlot \<and> ?n \<le> maxParticipants act \<and>
          1 \<le> availableSpots timeSlot - ?n \<and> age_range_ok act"
  then have ok': "?n \<le> availableSpots timeSlot" "?n \<le> maxParticipants act"
    "1 \<le> availableSpots timeSlot - ?n" "age_range_ok act"
    by simp_all
  show "spots_of (snd ?R) (activity_id act) sel = Some (availableSpots timeSlot - ?n)"
    by (rule createBooking_success(1)[OF chk ok'])
  assume valid: "booking_valid (new_booking env act requestedDate cust sel ?n
                    (generate_bookingNumber env st)) \<and>
     Some (generate_bookingNumber env st) \<notin> bookingNumber ` set (bookings st)"
  with createBooking_success(2)[OF chk ok']
  show "status_code (fst ?R) = 201"
    and "bookings (snd ?R) = bookings st @
          [(new_booking env act requestedDate cust sel ?n (generate_bookingNumber env st))
             \<lparr>booking_id := nextId st\<rparr>]"
    by simp_all
qed

lemmas demo_defs = demo_env_def demo_slot_def demo_sel_def demo_activity_def demo_store_def
  demo_customer_def demo_request_def

lemma demo_check_request:
  "n \<noteq> 0 \<Longrightarrow> check_request demo_env demo_store (demo_request n) =
     Inr (demo_activity, 1736899200000, demo_customer, demo_sel, demo_slot)"
  by (simp add: check_request_def demo_defs findActivityById_def startOfDay_def weekday_def
        msPerDay_def same_slot_def)

lemma demo_booking_valid:
  "1 \<le> n \<Longrightarrow> booking_valid (new_booking demo_env demo_activity d demo_customer demo_sel n num)"
  by (simp add: booking_valid_def new_booking_def demo_customer_def demo_sel_def trim_def is_space_def
        toLowerCase_def lower_char_def rx_test_def email_rx_def phone_rx_def rx_plus_def rx_opt_def
        is_word_def is_digit_def Let_def)

lemma roomy_check_request:
  "n \<noteq> 0 \<Longrightarrow> check_request demo_env roomy_store (demo_request n) =
     Inr (roomy_activity, 1736899200000, demo_customer, demo_sel, demo_slot)"
  by (simp add: check_request_def demo_defs roomy_store_def roomy_activity_def findActivityById_def
        startOfDay_def weekday_def msPerDay_def same_slot_def)

text \<open>
  C1 on the concrete day, for an activity that admits ten participants per booking: the slot
  has five spots, five are requested, the request is refused and the five spots remain.
\<close>

theorem createBooking_last_spots_witness:
  "spots_of roomy_store 1 demo_sel = Some 5 \<and>
   maxParticipants roomy_activity = 10 \<and>
   createBooking demo_env roomy_store (demo_request 5) =
     (Reply 400 False ''Validation Error'' (Thrown ValidationError), roomy_store)"
proof -
  have n: "req_numberOfParticipants (demo_request 5) = availableSpots demo_slot"
    "req_numberOfParticipants (demo_request 5) \<le> maxParticipants roomy_activity"
    "activity_id roomy_activity = 1" "maxParticipants roomy_activity = 10"
    by (simp_all add: demo_request_def demo_slot_def roomy_activity_def demo_activity_def)
  from createBooking_last_spots[OF roomy_check_request n(1,2)]
  show ?thesis
    by (simp add: n demo_request_def)
qed

section \<open>Payment orders, verification and the webhook\<close>

lemma findActivityById_cong:
  "activities st' = activities st \<Longrightarrow> findActivityById st' = findActivityById st"
  by (rule ext) (simp add: findActivityById_def)

lemma booking_save_frame:
  "booking_save st old new = Inr st' \<Longrightarrow>
     activities st' = activities st \<and> outbox st' = outbox st \<and> nextId st' = nextId st"
  by (drule booking_save_result) simp

text \<open>
  Claim C10. For a booking that exists: if its booking state is not \<open>Initiated\<close> or its
  payment state is not \<open>Pending\<close>, \<open>createPaymentOrder\<close> answers 400 and leaves the store as it
  was; a reply 200 is only given for an \<open>Initiated\<close>, \<open>Pending\<close> booking; and for such a booking,
  whenever the gateway opens an order, the reply is 200 and the order id is stored on the
  booking.
\<close>

theorem createPaymentOrder_guard:
  assumes "findBookingById st i = Some b"
  shows "(bookingStatus b \<noteq> ''Initiated'' \<or> paymentStatus b \<noteq> ''Pending'' \<longrightarrow>
            status_code (fst (createPaymentOrder env st (Some i))) = 400 \<and>
            \<not> success (fst (createPaymentOrder env st (Some i))) \<and>
            snd (createPaymentOrder env st (Some i)) = st)
       \<and> (status_code (fst (createPaymentOrder env st (Some i))) = 200 \<longrightarrow>
            bookingStatus b = ''Initiated'' \<and> paymentStatus b = ''Pending'')
       \<and> (bookingStatus b = ''Initiated'' \<and> paymentStatus b = ''Pending'' \<longrightarrow>
            (\<forall>ord. orders_create env (order_options_of b) = Some ord \<longrightarrow>
               status_code (fst (createPaymentOrder env st (Some i))) = 200 \<and>
               findBookingById (snd (createPaymentOrder env st (Some i))) i
                 = Some (b\<lparr>razorpayOrderId := Some (order_ident ord)\<rparr>)))"
proof (intro conjI impI allI)
  assume "bookingStatus b \<noteq> ''Initiated'' \<or> paymentStatus b \<noteq> ''Pending''"
  then have r: "createPaymentOrder env st (Some i) =
      (if bookingStatus b \<noteq> ''Initiated''
       then Reply 400 False ''This booking cannot be paid'' (CurrentStatus (bookingStatus b))
       else Reply 400 False ''Payment already processed'' (CurrentStatus (paymentStatus b)), st)"
    using assms by (auto simp: createPaymentOrder_def)
  show "status_code (fst (createPaymentOrder env st (Some i))) = 400" by (simp add: r)
  show "\<not> success (fst (createPaymentOrder env st (Some i)))" by (simp add: r)
  show "snd (createPaymentOrder env st (Some i)) = st" by (simp add: r)
next
  assume ok: "status_code (fst (createPaymentOrder env st (Some i))) = 200"
  show "bookingStatus b = ''Initiated''"
    using assms ok by (auto simp: createPaymentOrder_def split: if_splits)
  show "paymentStatus b = ''Pending''"
    using assms ok by (auto simp: createPaymentOrder_def split: if_splits)
next
  fix ord
  assume st: "bookingStatus b = ''Initiated'' \<and> paymentStatus b = ''Pending''"
    and g: "orders_create env (order_options_of b) = Some ord"
  let ?b = "b\<lparr>razorpayOrderId := Some (order_ident ord)\<rparr>"
  obtain st' where sv: "booking_save st b ?b = Inr st'"
    using booking_save_same_method[of ?b b st] by auto
  have r: "createPaymentOrder env st (Some i) =
      (Reply 200 True ''Payment order created successfully''
         (OrderData (order_ident ord) (order_amount ord) (order_currency ord) (bookingNumber b)), st')"
    using assms st g sv by (simp add: createPaymentOrder_def)
  show "status_code (fst (createPaymentOrder env st (Some i))) = 200" by (simp add: r)
  have "booking_id ?b = i" using findBookingById_id[OF assms] by simp
  from booking_save_lookup[OF assms this sv]
  show "findBookingById (snd (createPaymentOrder env st (Some i))) i = Some ?b" by (simp add: r)
qed

text \<open>
  Claim C7. When the request carries all four fields, the booking exists and the supplied
  signature differs from the HMAC-SHA256 of \<open>orderId|paymentId\<close> under the key secret,
  \<open>verifyPayment\<close> answers 400 \<open>Payment verification failed. Invalid signature.\<close>, the
  booking's payment state becomes \<open>Failed\<close> and nothing else changes: its booking state is as
  before, every other booking is as before, and the activities, hence the reserved spots, are
  untouched.
\<close>

theorem verifyPayment_invalid_signature:
  assumes fields: "razorpay_order_id req \<noteq> []" "razorpay_payment_id req \<noteq> []"
      "razorpay_signature req \<noteq> []" "bookingId req = Some i"
    and found: "findBookingById st i = Some b"
    and bad: "hmac_sha256_hex env (RAZORPAY_KEY_SECRET env)
                (razorpay_order_id req @ ''|'' @ razorpay_payment_id req) \<noteq> razorpay_signature req"
  shows "fst (verifyPayment env st req) =
           Reply 400 False ''Payment verification failed. Invalid signature.'' NoDetail
       \<and> findBookingById (snd (verifyPayment env st req)) i = Some (b\<lparr>paymentStatus := ''Failed''\<rparr>)
       \<and> bookingStatus (the (findBookingById (snd (verifyPayment env st req)) i)) = bookingStatus b
       \<and> paymentStatus (the (findBookingById (snd (verifyPayment env st req)) i)) = ''Failed''
       \<and> activities (snd (verifyPayment env st req)) = activities st
       \<and> bookings (snd (verifyPayment env st req)) =
           map (\<lambda>x. if booking_id x = i then b\<lparr>paymentStatus := ''Failed''\<rparr> else x) (bookings st)"
proof -
  let ?b = "b\<lparr>paymentStatus := ''Failed''\<rparr>"
  obtain st' where sv: "booking_save st b ?b = Inr st'"
    using booking_save_same_method[of ?b b st] by auto
  have r: "verifyPayment env st req =
      (Reply 400 False ''Payment verification failed. Invalid signature.'' NoDetail, st')"
    using fields found bad sv by (simp add: verifyPayment_def Let_def)
  have id: "booking_id ?b = i" using findBookingById_id[OF found] by simp
  from booking_save_lookup[OF found id sv] booking_save_frame[OF sv] booking_save_result[OF sv] id
  show ?thesis by (simp add: r)
qed

lemma or_else_nonempty: "d \<noteq> [] \<Longrightarrow> or_else x d \<noteq> []"
  by (simp add: or_else_def split: option.splits)

lemma unlisted_method_rejected:
  assumes "m \<notin> {Some ''UPI'', Some ''Card'', Some ''NetBanking'', Some ''Wallet''}"
  shows "\<not> paymentMethod_enum (Some (or_else m ''Unknown''))"
  using assms by (auto simp: paymentMethod_enum_def or_else_def split: option.splits)

lemma webhook_captured_rejected:
  assumes found: "findBookingByOrder st (order_id p) = Some b"
    and state: "paymentStatus b \<noteq> ''Completed''" "paymentMethod_enum (paymentMethod b)"
    and meth: "payment_method p \<notin> {Some ''UPI'', Some ''Card'', Some ''NetBanking'', Some ''Wallet''}"
  shows "webhook_captured env st p =
           (Reply 500 False ''Webhook processing error'' (Thrown ValidationError), st)"
proof -
  note m = unlisted_method_rejected[OF meth]
  have "paymentMethod b \<noteq> Some (or_else (payment_method p) ''Unknown'')"
    using state(2) m by auto
  then show ?thesis
    using found state(1) m
    by (simp add: webhook_captured_def Let_def booking_save_def confirm_fields_def)
qed

text \<open>
  Claim C5 fails: a webhook request whose signature verifies (with the webhook secret
  configured) is answered with an error status in three cases.
  \<^item> A \<open>payment.captured\<close> event for a booking not yet \<open>Completed\<close> whose payment method is
    not one of \<open>UPI\<close>, \<open>Card\<close>, \<open>NetBanking\<close>, \<open>Wallet\<close> is answered 500: the handler assigns
    \<open>payload.method || 'Unknown'\<close>, the save is refused by the enum of \<open>paymentMethod\<close>, and
    nothing is recorded. A missing method (\<open>'Unknown'\<close>) and the gateway's lower-case
    \<open>upi\<close> are such methods.
  \<^item> A \<open>payment.captured\<close> event whose order id matches no booking is answered 404.
  \<^item> A body without \<open>payload.payment\<close>, whatever its event, and a \<open>payment.captured\<close> or
    \<open>payment.failed\<close> event whose payment has no entity, is answered 500.
  In each case the store is unchanged.
\<close>

theorem paymentWebhook_error_status:
  assumes secret: "RAZORPAY_WEBHOOK_SECRET env \<noteq> []"
    and sig: "x_razorpay_signature req =
                Some (hmac_sha256_hex env (RAZORPAY_WEBHOOK_SECRET env)
                        (json_body env (event req, body_payload req)))"
  shows "(\<forall>p b. body_payload req = Entity p \<and> event req = ''payment.captured'' \<and>
            findBookingByOrder st (order_id p) = Some b \<and>
            paymentStatus b \<noteq> ''Completed'' \<and> paymentMethod_enum (paymentMethod b) \<and>
            payment_method p \<notin> {Some ''UPI'', Some ''Card'', Some ''NetBanking'', Some ''Wallet''} \<longrightarrow>
              paymentWebhook env st req =
                (Reply 500 False ''Webhook processing error'' (Thrown ValidationError), st))
       \<and> (\<forall>p. body_payload req = Entity p \<and> event req = ''payment.captured'' \<and>
            findBookingByOrder st (order_id p) = None \<longrightarrow>
              paymentWebhook env st req = (Reply 404 False ''Booking not found'' NoDetail, st))
       \<and> (body_payload req = Absent \<or>
          body_payload req = NoEntity \<and>
            (event req = ''payment.captured'' \<or> event req = ''payment.failed'') \<longrightarrow>
              paymentWebhook env st req =
                (Reply 500 False ''Webhook processing error'' (Thrown TypeError), st))"
proof (intro conjI allI impI)
  fix p b
  assume h: "body_payload req = Entity p \<and> event req = ''payment.captured'' \<and>
            findBookingByOrder st (order_id p) = Some b \<and>
            paymentStatus b \<noteq> ''Completed'' \<and> paymentMethod_enum (paymentMethod b) \<and>
            payment_method p \<notin> {Some ''UPI'', Some ''Card'', Some ''NetBanking'', Some ''Wallet''}"
  then have "webhook_captured env st p =
           (Reply 500 False ''Webhook processing error'' (Thrown ValidationError), st)"
    using webhook_captured_rejected[of st p b env] by simp
  then show "paymentWebhook env st req =
                (Reply 500 False ''Webhook processing error'' (Thrown ValidationError), st)"
    using secret sig h by (simp add: paymentWebhook_def)
next
  fix p
  assume "body_payload req = Entity p \<and> event req = ''payment.captured'' \<and>
            findBookingByOrder st (order_id p) = None"
  then show "paymentWebhook env st req = (Reply 404 False ''Booking not found'' NoDetail, st)"
    using secret sig by (simp add: paymentWebhook_def webhook_captured_def)
next
  assume "body_payload req = Absent \<or>
          body_payload req = NoEntity \<and>
            (event req = ''payment.captured'' \<or> event req = ''payment.failed'')"
  then show "paymentWebhook env st req =
                (Reply 500 False ''Webhook processing error'' (Thrown TypeError), st)"
    using secret sig by (auto simp: paymentWebhook_def)
qed

text \<open>
  What the webhook answers with status 200 once the signature has verified: a
  \<open>payment.captured\<close> event for a booking that is already \<open>Completed\<close> (nothing changes), one for
  a booking not yet \<open>Completed\<close> whose method is one of the schema's, a \<open>payment.failed\<close> event
  that matches no booking, and an event of any other type whose payment, if it has one, has
  an entity or none. Every other reply is the 404 of a captured payment without booking or
  the 500 of the \<open>catch\<close>.
\<close>

lemma paymentWebhook_replies:
  assumes secret: "RAZORPAY_WEBHOOK_SECRET env \<noteq> []"
    and sig: "x_razorpay_signature req =
                Some (hmac_sha256_hex env (RAZORPAY_WEBHOOK_SECRET env)
                        (json_body env (event req, body_payload req)))"
  shows "(\<forall>p b. body_payload req = Entity p \<and> event req = ''payment.captured'' \<and>
            findBookingByOrder st (order_id p) = Some b \<and>
            paymentStatus b = ''Completed'' \<longrightarrow>
              paymentWebhook env st req = (Reply 200 True ''Payment already processed'' NoDetail, st))
       \<and> (\<forall>p b. body_payload req = Entity p \<and> event req = ''payment.captured'' \<and>
            findBookingByOrder st (order_id p) = Some b \<and>
            paymentStatus b \<noteq> ''Completed'' \<and>
            paymentMethod_enum (Some (or_else (payment_method p) ''Unknown'')) \<longrightarrow>
              fst (paymentWebhook env st req) =
                Reply 200 True ''Webhook processed successfully'' NoDetail)
       \<and> (\<forall>p. body_payload req = Entity p \<and> event req = ''payment.failed'' \<and>
            findBookingByOrder st (order_id p) = None \<longrightarrow>
              paymentWebhook env st req = (Reply 200 True ''Webhook received'' NoDetail, st))
       \<and> (body_payload req \<noteq> Absent \<and>
          event req \<noteq> ''payment.captured'' \<and> event req \<noteq> ''payment.failed'' \<longrightarrow>
              paymentWebhook env st req = (Reply 200 True ''Webhook received'' NoDetail, st))
       \<and> (status_code (fst (paymentWebhook env st req)) = 200
          \<or> fst (paymentWebhook env st req) = Reply 404 False ''Booking not found'' NoDetail
          \<or> (\<exists>e. fst (paymentWebhook env st req) =
                   Reply 500 False ''Webhook processing error'' (Thrown e)))"
proof (intro conjI allI impI)
  show "body_payload req = Entity p \<and> event req = ''payment.captured'' \<and>
      findBookingByOrder st (order_id p) = Some b \<and> paymentStatus b = ''Completed''
      \<Longrightarrow> paymentWebhook env st req = (Reply 200 True ''Payment already processed'' NoDetail, st)" for p b
    using secret sig by (simp add: paymentWebhook_def webhook_captured_def)
  show "body_payload req = Entity p \<and> event req = ''payment.captured'' \<and>
      findBookingByOrder st (order_id p) = Some b \<and> paymentStatus b \<noteq> ''Completed'' \<and>
      paymentMethod_enum (Some (or_else (payment_method p) ''Unknown''))
      \<Longrightarrow> fst (paymentWebhook env st req) = Reply 200 True ''Webhook processed successfully'' NoDetail" for p b
    using secret sig
    by (simp add: paymentWebhook_def webhook_captured_def Let_def booking_save_def confirm_fields_def)
  show "body_payload req = Entity p \<and> event req = ''payment.failed'' \<and>
      findBookingByOrder st (order_id p) = None
      \<Longrightarrow> paymentWebhook env st req = (Reply 200 True ''Webhook received'' NoDetail, st)" for p
    using secret sig by (simp add: paymentWebhook_def webhook_failed_def)
  show "body_payload req \<noteq> Absent \<and>
      event req \<noteq> ''payment.captured'' \<and> event req \<noteq> ''payment.failed''
      \<Longrightarrow> paymentWebhook env st req = (Reply 200 True ''Webhook received'' NoDetail, st)"
    using secret sig by (cases "body_payload req") (simp_all add: paymentWebhook_def)
  show "status_code (fst (paymentWebhook env st req)) = 200
          \<or> fst (paymentWebhook env st req) = Reply 404 False ''Booking not found'' NoDetail
          \<or> (\<exists>e. fst (paymentWebhook env st req) =
                   Reply 500 False ''Webhook processing error'' (Thrown e))"
    using secret sig
    by (cases "body_payload req")
       (auto simp: paymentWebhook_def webhook_captured_def webhook_failed_def Let_def
             split: option.splits sum.splits)
qed

section \<open>Hexadecimal strings\<close>

lemma nibble_cases:
  "n < 16 \<Longrightarrow> n \<in> set [0, 1, 2, 3, 4, 5, 6, 7, 8, 9, 10, 11, 12, 13, 14, 15 :: nat]"
  by (simp; arith)

lemma hex_digit_table:
  "list_all (\<lambda>n. hex_val (hex_digit n) = Some n \<and> hex_digit n \<noteq> CHR '':'')
     [0, 1, 2, 3, 4, 5, 6, 7, 8, 9, 10, 11, 12, 13, 14, 15]"
  by (simp add: hex_val_def hex_digit_def)

lemma hex_val_hex_digit: "n < 16 \<Longrightarrow> hex_val (hex_digit n) = Some n"
  using hex_digit_table nibble_cases[of n] unfolding list_all_iff by blast

lemma hex_digit_not_colon: "n < 16 \<Longrightarrow> hex_digit n \<noteq> CHR '':''"
  using hex_digit_table nibble_cases[of n] unfolding list_all_iff by blast

lemma byte_nibbles: "of_nat (16 * (unat b div 16) + unat b mod 16) = (b :: byte)"
  by simp

lemma from_hex_to_hex: "from_hex (to_hex bs) = bs"
proof (induction bs)
  case Nil
  then show ?case by (simp add: to_hex_def)
next
  case (Cons b bs)
  have hi: "unat b div 16 < 16"
    using unsigned_less[of b, where 'a = nat] by (simp add: less_mult_imp_div_less)
  have lo: "unat b mod 16 < 16" by simp
  from Cons show ?case
    by (simp add: to_hex_def hex_val_hex_digit[OF hi] hex_val_hex_digit[OF lo] byte_nibbles)
qed

lemma colon_not_in_to_hex: "CHR '':'' \<notin> set (to_hex bs)"
proof (induction bs)
  case Nil
  then show ?case by (simp add: to_hex_def)
next
  case (Cons b bs)
  have hi: "unat b div 16 < 16"
    using unsigned_less[of b, where 'a = nat] by (simp add: less_mult_imp_div_less)
  have lo: "unat b mod 16 < 16" by simp
  from Cons hex_digit_not_colon[OF hi] hex_digit_not_colon[OF lo] show ?case
    by (auto simp: to_hex_def)
qed

lemma length_to_hex: "length (to_hex bs) = 2 * length bs"
  by (induction bs) (simp_all add: to_hex_def)

lemma split_on_absent: "c \<notin> set xs \<Longrightarrow> split_on c xs = [xs]"
  by (induction xs) auto

lemma split_on_first: "c \<notin> set xs \<Longrightarrow> split_on c (xs @ c # ys) = xs # split_on c ys"
  by (induction xs) auto

section \<open>Repeated confirmation, repeated scan, and the credential\<close>

lemma generateQRData_confirm:
  "generateQRData env ((confirm_fields env' b p m)\<lparr>razorpaySignature := s\<rparr>) = generateQRData env b"
  by (simp add: generateQRData_def qr_data_def confirm_fields_def)

lemma confirm_fields_sel:
  "booking_id (confirm_fields env b p m) = booking_id b"
  "activity_ref (confirm_fields env b p m) = activity_ref b"
  "paymentMethod (confirm_fields env b p m) = Some m"
  by (simp_all add: confirm_fields_def)

text \<open>
  Claim C3 fails for the client callback. \<open>verifyPayment\<close> never reads the payment state of
  the booking: for a booking in any state, so also one that is already \<open>Completed\<close>, a request
  with a valid signature answers 200, stamps \<open>paidAt\<close> and \<open>confirmationDate\<close> with the time
  of this call, overwrites the payment fields and the booking state, issues a new credential
  and sends both confirmations again. (The webhook has the guard: a \<open>payment.captured\<close> event for a booking
  that is already \<open>Completed\<close> changes nothing.)
\<close>

theorem verifyPayment_reapplies_confirmation:
  assumes fields: "razorpay_order_id req \<noteq> []" "razorpay_payment_id req \<noteq> []"
      "razorpay_signature req \<noteq> []" "bookingId req = Some i"
    and found: "findBookingById st i = Some b"
    and good: "hmac_sha256_hex env (RAZORPAY_KEY_SECRET env)
                (razorpay_order_id req @ ''|'' @ razorpay_payment_id req) = razorpay_signature req"
    and meth: "payments_fetch env (razorpay_payment_id req) = Some (Some m)" "m \<noteq> []"
      "paymentMethod_enum (Some m)"
    and act: "findActivityById st (activity_ref b) = Some a"
    and img: "toDataURL env (generateQRData env b) = Some png"
  shows "status_code (fst (verifyPayment env st req)) = 200
       \<and> findBookingById (snd (verifyPayment env st req)) i =
           Some (b\<lparr>paymentStatus := ''Completed'', bookingStatus := ''Confirmed'',
                   razorpayPaymentId := Some (razorpay_payment_id req),
                   transactionId := Some (razorpay_payment_id req),
                   paymentMethod := Some m,
                   paidAt := Some (now env), confirmationDate := Some (now env),
                   razorpaySignature := Some (razorpay_signature req),
                   qrData := Some (generateQRData env b), qrImage := Some png\<rparr>)
       \<and> outbox (snd (verifyPayment env st req)) = outbox st @ [(''email'', i), (''whatsapp'', i)]"
proof -
  define b1 where "b1 = (confirm_fields env b (razorpay_payment_id req) m)
               \<lparr>razorpaySignature := Some (razorpay_signature req)\<rparr>"
  define b2 where "b2 = b1\<lparr>qrData := Some (generateQRData env b), qrImage := Some png\<rparr>"
  have id: "booking_id b = i" by (rule findBookingById_id[OF found])
  have sel1: "booking_id b1 = i" "activity_ref b1 = activity_ref b" "paymentMethod b1 = Some m"
    using id by (simp_all add: b1_def confirm_fields_sel)
  have sel2: "booking_id b2 = i" "paymentMethod b2 = paymentMethod b1"
    using sel1 by (simp_all add: b2_def)
  have q1: "generateQRData env b1 = generateQRData env b"
    unfolding b1_def by (rule generateQRData_confirm)
  obtain st1 where sv1: "booking_save st b b1 = Inr st1"
    using meth(3) sel1(3) by (auto simp: booking_save_def)
  have f1: "findBookingById st1 i = Some b1"
    by (rule booking_save_lookup[OF found sel1(1) sv1])
  obtain st2 where sv2: "booking_save st1 b1 b2 = Inr st2"
    using booking_save_same_method[OF sel2(2), of st1] by auto
  have f2: "findBookingById st2 i = Some b2"
    by (rule booking_save_lookup[OF f1 sel2(1) sv2])
  have act1: "findActivityById st1 (activity_ref b1) = Some a"
    using act findActivityById_cong[OF booking_save_activities[OF sv1]] by (simp add: sel1)
  have q: "generateAndSendQR env st1 b1 =
      (b2, st2\<lparr>outbox := outbox st2 @ [(''email'', i), (''whatsapp'', i)]\<rparr>)"
    unfolding generateAndSendQR_def act1 Let_def q1 img
    using sv2 by (simp add: b2_def sel1)
  have m: "or_else (Some m) ''Unknown'' = m" using meth(2) by (simp add: or_else_def)
  have v: "verifyPayment env st req =
      (case generateAndSendQR env st1 b1 of
         (b2, st2) \<Rightarrow>
           (Reply 200 True ''Payment verified successfully! Booking confirmed.''
              (VerifyData (booking_id b2) (bookingNumber b2) (bookingStatus b2)
                 (paymentStatus b2) (transactionId b2) (finalAmount b2)
                 (paidAt b2) (qrImage b2 \<noteq> None \<and> qrImage b2 \<noteq> Some [])), st2))"
    unfolding verifyPayment_def Let_def
    using fields found good sv1 by (simp add: meth(1) m b1_def)
  have r: "snd (verifyPayment env st req) =
             st2\<lparr>outbox := outbox st2 @ [(''email'', i), (''whatsapp'', i)]\<rparr>"
    and c: "status_code (fst (verifyPayment env st req)) = 200"
    unfolding v q by simp_all
  have o: "outbox st2 = outbox st"
    using booking_save_frame[OF sv1] booking_save_frame[OF sv2] by simp
  have "findBookingById (st2\<lparr>outbox := outbox st2 @ [(''email'', i), (''whatsapp'', i)]\<rparr>) i
          = Some b2"
    using f2 by (simp add: findBookingById_def)
  moreover have "b2 = b\<lparr>paymentStatus := ''Completed'', bookingStatus := ''Confirmed'',
                   razorpayPaymentId := Some (razorpay_payment_id req),
                   transactionId := Some (razorpay_payment_id req),
                   paymentMethod := Some m,
                   paidAt := Some (now env), confirmationDate := Some (now env),
                   razorpaySignature := Some (razorpay_signature req),
                   qrData := Some (generateQRData env b), qrImage := Some png\<rparr>"
    by (simp add: b2_def b1_def confirm_fields_def)
  ultimately show ?thesis
    using c o r by simp
qed

text \<open>
  Claim C4 fails on the second scan. The first scan of a valid credential succeeds, sets
  \<open>checkedIn\<close>, stamps the check-in time and sets the booking state to \<open>Completed\<close>. The
  second scan therefore stops at the check of the booking state: it answers 400
  \<open>Booking is not confirmed\<close> with the status \<open>Completed\<close>, not \<open>Already checked in\<close> with the
  check-in time. It leaves the store unchanged.
\<close>

theorem scanQR_second_scan:
  assumes tok: "tok \<noteq> []"
    and dec: "decryptQRData env tok = Some d" "decryptQRData env' tok = Some d"
    and found: "findBookingById st (qr_bookingId d) = Some b"
    and state: "bookingStatus b = ''Confirmed''" "paymentStatus b = ''Completed''" "\<not> checkedIn b"
    and today: "startOfDay env (bookingDate b) = startOfDay env (now env)"
    and act: "findActivityById st (activity_ref b) = Some a"
  shows "fst (scanQR env st tok user) =
           Reply 200 True ''Check-in successful!''
             (CheckInData (bookingNumber b) (name (customerDetails b)) (title a)
                (numberOfParticipants b) (Some (now env)))
       \<and> findBookingById (snd (scanQR env st tok user)) (qr_bookingId d) =
           Some (b\<lparr>checkedIn := True, checkInTime := Some (now env), checkInBy := Some user,
                   bookingStatus := ''Completed''\<rparr>)
       \<and> scanQR env' (snd (scanQR env st tok user)) tok user' =
           (Reply 400 False ''Booking is not confirmed'' (CurrentStatus ''Completed''),
            snd (scanQR env st tok user))"
proof -
  let ?b = "b\<lparr>checkedIn := True, checkInTime := Some (now env), checkInBy := Some user,
              bookingStatus := ''Completed''\<rparr>"
  obtain st1 where sv: "booking_save st b ?b = Inr st1"
    using booking_save_same_method[of ?b b st] by auto
  have r: "scanQR env st tok user =
      (Reply 200 True ''Check-in successful!''
         (CheckInData (bookingNumber b) (name (customerDetails b)) (title a)
            (numberOfParticipants b) (Some (now env))), st1)"
    using tok dec(1) found state today act sv by (simp add: scanQR_def Let_def)
  have id: "booking_id ?b = qr_bookingId d" using findBookingById_id[OF found] by simp
  have f1: "findBookingById st1 (qr_bookingId d) = Some ?b"
    by (rule booking_save_lookup[OF found id sv])
  have "scanQR env' st1 tok user' =
      (Reply 400 False ''Booking is not confirmed'' (CurrentStatus ''Completed''), st1)"
    using tok dec(2) f1 by (simp add: scanQR_def)
  with r f1 show ?thesis by simp
qed

lemma generateQRData_parts:
  "generateQRData env b =
     to_hex (randomBytes16 env) @ '':'' @
     to_hex (cipher env (scryptSync env (secretKey env)) (randomBytes16 env)
               (json_stringify env (qr_data env b)))"
  "split_on CHR '':'' (generateQRData env b) =
     [to_hex (randomBytes16 env),
      to_hex (cipher env (scryptSync env (secretKey env)) (randomBytes16 env)
                (json_stringify env (qr_data env b)))]"
proof -
  let ?iv = "randomBytes16 env"
  let ?c = "cipher env (scryptSync env (secretKey env)) ?iv (json_stringify env (qr_data env b))"
  show g: "generateQRData env b = to_hex ?iv @ '':'' @ to_hex ?c"
    by (simp add: generateQRData_def Let_def)
  show "split_on CHR '':'' (generateQRData env b) = [to_hex ?iv, to_hex ?c]"
    unfolding g
    by (simp add: split_on_first[OF colon_not_in_to_hex] split_on_absent[OF colon_not_in_to_hex])
qed

text \<open>
  A token is read back by any later request that has the same secret and key derivation,
  provided the decipher undoes the cipher on the serialised payload and the parser undoes
  the serialisation.
\<close>

lemma decrypt_generated:
  assumes key: "QR_SECRET env' = QR_SECRET env" "scryptSync env' = scryptSync env"
    and dec: "decipher env' (scryptSync env (secretKey env)) (randomBytes16 env)
                (cipher env (scryptSync env (secretKey env)) (randomBytes16 env)
                   (json_stringify env (qr_data env b)))
              = Some (json_stringify env (qr_data env b))"
    and parse: "json_parse env' (json_stringify env (qr_data env b)) = Some (qr_data env b)"
  shows "decryptQRData env' (generateQRData env b) = Some (qr_data env b)"
proof -
  have k: "secretKey env' = secretKey env" using key(1) by (simp add: secretKey_def)
  show ?thesis
    using dec parse
    by (simp add: decryptQRData_def generateQRData_parts(2) k key(2) from_hex_to_hex)
qed

lemma generateQRData_draw:
  assumes "generateQRData env2 b2 = generateQRData env b"
  shows "randomBytes16 env2 = randomBytes16 env"
proof -
  from assms have "split_on CHR '':'' (generateQRData env2 b2) = split_on CHR '':'' (generateQRData env b)"
    by simp
  then have "to_hex (randomBytes16 env2) = to_hex (randomBytes16 env)"
    by (simp add: generateQRData_parts(2))
  then have "from_hex (to_hex (randomBytes16 env2)) = from_hex (to_hex (randomBytes16 env))"
    by simp
  then show ?thesis by (simp add: from_hex_to_hex)
qed

text \<open>
  Claim C9. Let \<open>d\<close> be the payload of the booking: its id, number, customer name and phone,
  activity, date, number of participants and time slot, and the time of issuance. If the
  decipher undoes the cipher on the serialisation of \<open>d\<close>, under the key derived from the
  configured secret and the IV drawn for this issuance, and \<open>JSON.parse\<close> undoes
  \<open>JSON.stringify\<close> on \<open>d\<close>, then
  \<^item> decrypting the issued token in a later request (same secret, same key derivation)
    returns \<open>d\<close>;
  \<^item> the token is the IV in hexadecimal, a colon, and the ciphertext in hexadecimal, and
    splitting it at the colon gives exactly these two parts;
  \<^item> the first part read as hexadecimal is the IV that this issuance drew;
  \<^item> the IV is drawn by each issuance: an issuance that draws another IV produces another
    token, whatever booking it is for.
  That a draw differs from the earlier ones is a property of \<open>crypto.randomBytes\<close>.
\<close>

theorem qr_round_trip:
  assumes payload: "d = \<lparr>qr_bookingId = booking_id b,
                          qr_bookingNumber = bookingNumber b,
                          qr_customerName = name (customerDetails b),
                          qr_customerPhone = phone (customerDetails b),
                          qr_activityId = activity_ref b,
                          qr_bookingDate = bookingDate b,
                          qr_numberOfParticipants = numberOfParticipants b,
                          qr_timeSlot = selectedTimeSlot b,
                          qr_timestamp = now env\<rparr>"
    and key: "QR_SECRET env' = QR_SECRET env" "scryptSync env' = scryptSync env"
    and dec: "decipher env' (scryptSync env (secretKey env)) (randomBytes16 env)
                (cipher env (scryptSync env (secretKey env)) (randomBytes16 env)
                   (json_stringify env d))
              = Some (json_stringify env d)"
    and parse: "json_parse env' (json_stringify env d) = Some d"
  shows "decryptQRData env' (generateQRData env b) = Some d
       \<and> generateQRData env b =
           to_hex (randomBytes16 env) @ '':'' @
           to_hex (cipher env (scryptSync env (secretKey env)) (randomBytes16 env)
                     (json_stringify env d))
       \<and> split_on CHR '':'' (generateQRData env b) =
           [to_hex (randomBytes16 env),
            to_hex (cipher env (scryptSync env (secretKey env)) (randomBytes16 env)
                      (json_stringify env d))]
       \<and> from_hex (hd (split_on CHR '':'' (generateQRData env b))) = randomBytes16 env
       \<and> (\<forall>env2 b2. randomBytes16 env2 \<noteq> randomBytes16 env \<longrightarrow>
             generateQRData env2 b2 \<noteq> generateQRData env b)"
proof -
  have d: "d = qr_data env b" by (simp add: payload qr_data_def)
  have "decryptQRData env' (generateQRData env b) = Some d"
    unfolding d by (rule decrypt_generated[OF key dec[unfolded d] parse[unfolded d]])
  moreover have "\<forall>env2 b2. randomBytes16 env2 \<noteq> randomBytes16 env \<longrightarrow>
             generateQRData env2 b2 \<noteq> generateQRData env b"
    using generateQRData_draw by blast
  ultimately show ?thesis
    using generateQRData_parts[of env b] by (simp add: d from_hex_to_hex)
qed

section \<open>Releasing capacity\<close>

lemma findIndex_update:
  "findIndex P xs = Some i \<Longrightarrow> P y \<Longrightarrow> findIndex P (xs[i := y]) = Some i"
proof (induction xs arbitrary: i)
  case Nil
  then show ?case by simp
next
  case (Cons z zs)
  show ?case
  proof (cases "P z")
    case True
    with Cons.prems show ?thesis by simp
  next
    case False
    with Cons.prems obtain j where j: "findIndex P zs = Some j" "i = Suc j"
      by (auto split: option.splits)
    from Cons.IH[OF j(1) Cons.prems(2)] False j(2) show ?thesis by simp
  qed
qed

lemma findBookingById_cong:
  "bookings st' = bookings st \<Longrightarrow> findBookingById st' i = findBookingById st i"
  by (simp add: findBookingById_def)

text \<open>One release: what \<open>restore_spots\<close> leaves behind when the store accepts the write.\<close>

lemma restore_spots_adds:
  assumes act: "findActivityById st (activity_ref b) = Some a"
    and idx: "findIndex (same_slot (selectedTimeSlot b)) (timeSlots a) = Some k"
    and valid: "numberOfParticipants b = 0 \<or>
                1 \<le> availableSpots (timeSlots a ! k) + numberOfParticipants b"
    and dates: "startDate a \<le> endDate a" and ages: "age_range_ok a"
  shows "\<exists>st' a'. restore_spots st b = Inr st' \<and>
           findActivityById st' (activity_ref b) = Some a' \<and>
           findIndex (same_slot (selectedTimeSlot b)) (timeSlots a') = Some k \<and>
           availableSpots (timeSlots a' ! k) =
             availableSpots (timeSlots a ! k) + numberOfParticipants b \<and>
           startDate a' \<le> endDate a' \<and> age_range_ok a' \<and>
           bookings st' = bookings st \<and>
           spots_of st' (activity_ref b) (selectedTimeSlot b) =
             Some (availableSpots (timeSlots a ! k) + numberOfParticipants b)"
proof -
  let ?n = "numberOfParticipants b"
  let ?sel = "selectedTimeSlot b"
  from findIndex_find[OF idx] have k: "k < length (timeSlots a)"
    and same: "same_slot ?sel (timeSlots a ! k)"
    by (auto simp: find_Some_iff)
  from activity_save_ok[OF k valid dates ages] obtain st' where
    saved: "activity_save st a (add_spots a k ?n) = Inr st'"
    by blast
  from saved obtain a1 where hook: "activity_pre_save (add_spots a k ?n) = Inr a1"
    and st': "st' = st\<lparr>activities :=
        map (\<lambda>x. if activity_id x = activity_id a1 then a1 else x) (activities st)\<rparr>"
    by (auto simp: activity_save_def split: if_splits sum.splits)
  from hook have a1: "timeSlots a1 = timeSlots (add_spots a k ?n)"
    "activity_id a1 = activity_id a" "startDate a1 = startDate a" "endDate a1 = endDate a"
    "minAge a1 = minAge a" "maxAge a1 = maxAge a"
    by (auto simp: activity_pre_save_def add_spots_def Let_def split: if_splits option.splits)
  from findActivityById_id[OF act] a1(2) have id: "activity_id a1 = activity_ref b" by simp
  from act id st' have look: "findActivityById st' (activity_ref b) = Some a1"
    by (simp add: findActivityById_def find_activity_replace)
  let ?y = "(timeSlots a ! k)\<lparr>availableSpots := availableSpots (timeSlots a ! k) + ?n\<rparr>"
  from same have y: "same_slot ?sel ?y" by (simp add: same_slot_def)
  have slots: "timeSlots a1 = (timeSlots a)[k := ?y]" by (simp add: a1(1) add_spots_def)
  have "restore_spots st b = Inr st'"
    using act idx saved by (simp add: restore_spots_def)
  moreover have "findIndex (same_slot ?sel) (timeSlots a1) = Some k"
    unfolding slots by (rule findIndex_update[OF idx y])
  moreover have "availableSpots (timeSlots a1 ! k) = availableSpots (timeSlots a ! k) + ?n"
    unfolding slots using k by simp
  moreover have "startDate a1 \<le> endDate a1" using dates a1 by simp
  moreover have "age_range_ok a1" using ages a1 by (simp add: age_range_ok_def)
  moreover have "bookings st' = bookings st" using st' by simp
  moreover have "spots_of st' (activity_ref b) ?sel =
      Some (availableSpots (timeSlots a ! k) + ?n)"
    using add_spots_saved(1)[OF act idx saved] .
  ultimately show ?thesis using look by blast
qed

text \<open>
  Claim C2 fails: capacity is released twice. A \<open>payment.failed\<close> event for a \<open>Pending\<close>
  booking of \<open>n\<close> participants marks it \<open>Failed\<close> and adds \<open>n\<close> to the slot; an administrator's
  cancellation of the same booking afterwards is not refused (only a \<open>Completed\<close> payment is)
  and adds \<open>n\<close> again. The slot ends with \<open>2 * n\<close> spots more than before the event, though the
  booking had taken only \<open>n\<close>. No release is clamped.
\<close>

theorem double_release_exceeds_capacity:
  assumes secret: "RAZORPAY_WEBHOOK_SECRET env \<noteq> []"
    and sig: "x_razorpay_signature req =
                Some (hmac_sha256_hex env (RAZORPAY_WEBHOOK_SECRET env)
                        (json_body env (event req, body_payload req)))"
    and ev: "event req = ''payment.failed''"
    and ent: "body_payload req = Entity p"
    and ord: "findBookingByOrder st (order_id p) = Some b"
    and byid: "findBookingById st i = Some b"
    and pending: "paymentStatus b = ''Pending''"
    and act: "findActivityById st (activity_ref b) = Some a"
    and idx: "findIndex (same_slot (selectedTimeSlot b)) (timeSlots a) = Some k"
    and n: "1 \<le> numberOfParticipants b"
    and valid: "1 \<le> availableSpots (timeSlots a ! k) + numberOfParticipants b"
    and dates: "startDate a \<le> endDate a" and ages: "age_range_ok a"
  shows "spots_of st (activity_ref b) (selectedTimeSlot b) = Some (availableSpots (timeSlots a ! k))
       \<and> status_code (fst (paymentWebhook env st req)) = 200
       \<and> spots_of (snd (paymentWebhook env st req)) (activity_ref b) (selectedTimeSlot b) =
           Some (availableSpots (timeSlots a ! k) + numberOfParticipants b)
       \<and> status_code (fst (cancelBooking env' (snd (paymentWebhook env st req)) i reason user)) = 200
       \<and> spots_of (snd (cancelBooking env' (snd (paymentWebhook env st req)) i reason user))
             (activity_ref b) (selectedTimeSlot b) =
           Some (availableSpots (timeSlots a ! k) + 2 * numberOfParticipants b)"
proof -
  let ?n = "numberOfParticipants b"
  let ?s = "availableSpots (timeSlots a ! k)"
  define bF where "bF = b\<lparr>paymentStatus := ''Failed''\<rparr>"
  have selF: "activity_ref bF = activity_ref b" "selectedTimeSlot bF = selectedTimeSlot b"
    "numberOfParticipants bF = ?n" "paymentStatus bF = ''Failed''" "booking_id bF = i"
    "paymentMethod bF = paymentMethod b"
    using findBookingById_id[OF byid] by (simp_all add: bF_def)
  have s0: "spots_of st (activity_ref b) (selectedTimeSlot b) = Some ?s"
    using act findIndex_find[OF idx] by (simp add: spots_of_def)
  obtain sa where sva: "booking_save st b bF = Inr sa"
    using booking_save_same_method[OF selF(6), of st] by auto
  have fa: "findBookingById sa i = Some bF"
    by (rule booking_save_lookup[OF byid selF(5) sva])
  have acta: "findActivityById sa (activity_ref b) = Some a"
    using act findActivityById_cong[OF booking_save_activities[OF sva]] by simp
  from restore_spots_adds[OF acta idx _ dates ages] valid
  obtain st1 a1 where r1: "restore_spots sa b = Inr st1"
    and act1: "findActivityById st1 (activity_ref b) = Some a1"
    and idx1: "findIndex (same_slot (selectedTimeSlot b)) (timeSlots a1) = Some k"
    and sp1: "availableSpots (timeSlots a1 ! k) = ?s + ?n"
    and ok1: "startDate a1 \<le> endDate a1" "age_range_ok a1"
    and bk1: "bookings st1 = bookings sa"
    and spots1: "spots_of st1 (activity_ref b) (selectedTimeSlot b) = Some (?s + ?n)"
    by blast
  have w: "paymentWebhook env st req = (Reply 200 True ''Webhook received'' NoDetail, st1)"
    using secret sig ev ent ord pending sva r1
    by (simp add: paymentWebhook_def webhook_failed_def bF_def)
  have f1: "findBookingById st1 i = Some bF"
    using fa findBookingById_cong[OF bk1] by simp
  have v2: "numberOfParticipants bF = 0 \<or>
            1 \<le> availableSpots (timeSlots a1 ! k) + numberOfParticipants bF"
    using n valid sp1 selF(3) by simp
  from restore_spots_adds[of st1 bF a1 k] act1 idx1 v2 ok1 selF
  obtain st1' where r2: "restore_spots st1 bF = Inr st1'"
    and spots2: "spots_of st1' (activity_ref b) (selectedTimeSlot b) = Some (?s + ?n + ?n)"
    by (auto simp: sp1)
  define bC where "bC = bF\<lparr>bookingStatus := ''Cancelled'', cancelledAt := Some (now env'),
      cancellationReason := Some (or_else (Some reason) ''Cancelled by admin''),
      cancelledBy := Some user\<rparr>"
  have "paymentMethod bC = paymentMethod bF" by (simp add: bC_def)
  from booking_save_same_method[OF this, of st1'] obtain st2 where
    sv2: "booking_save st1' bF bC = Inr st2" by auto
  have c: "cancelBooking env' st1 i reason user =
      (Reply 200 True ''Booking cancelled successfully'' (CancelledData bC), st2)"
    using f1 selF(4) r2 sv2 by (simp add: cancelBooking_def Let_def bC_def)
  have "spots_of st2 = spots_of st1'"
    by (rule spots_of_cong[OF booking_save_activities[OF sv2]])
  with spots2 have "spots_of st2 (activity_ref b) (selectedTimeSlot b) = Some (?s + 2 * ?n)"
    by simp
  with s0 spots1 show ?thesis
    by (simp add: w c)
qed

section \<open>Pricing and booking numbers\<close>

lemma activity_save_frame: "activity_save st a a' = Inr st' \<Longrightarrow> bookings st' = bookings st \<and> nextId st' = nextId st"
  by (auto simp: activity_save_def split: if_splits sum.splits)

lemma pre_save_full_discount:
  "discountPercentage a = Some 100 \<Longrightarrow> activity_pre_save a = Inr a' \<Longrightarrow> priceAfterDiscount a' = Some 0"
  by (auto simp: activity_pre_save_def Let_def split: if_splits)

lemma thrown_reply_status: "status_code (thrown_reply e) \<noteq> 201"
  by (simp add: thrown_reply_def)

text \<open>
  Claim C8 fails when the discounted price is 0. Whenever \<open>createBooking\<close> stores a booking
  for an activity whose \<open>priceAfterDiscount\<close> is 0, the stored price per person is the base
  price, the total and final amount are base price times participants, and the discount is 0.
\<close>

theorem createBooking_full_discount_price:
  assumes chk: "check_request env st req = Inr (act, requestedDate, cust, sel, timeSlot)"
    and full: "priceAfterDiscount act = Some 0"
    and created: "status_code (fst (createBooking env st req)) = 201"
  shows "\<exists>b. bookings (snd (createBooking env st req)) = bookings st @ [b] \<and>
             pricePerPerson b = price act \<and>
             totalAmount b = price act * of_int (req_numberOfParticipants req) \<and>
             discountAmount b = 0 \<and>
             finalAmount b = price act * of_int (req_numberOfParticipants req)"
proof -
  let ?n = "req_numberOfParticipants req"
  from created chk obtain i st1 b st2 where
    saved: "activity_save st act (add_spots act i (- ?n)) = Inr st1"
    and made: "booking_create st1
        (new_booking env act requestedDate cust sel ?n (generate_bookingNumber env st1)) = Inr (b, st2)"
    and R: "snd (createBooking env st req) = st2"
    by (auto simp: createBooking_def Let_def thrown_reply_status
             split: if_splits option.splits sum.splits prod.splits)
  from booking_create_frame[OF made] activity_save_frame[OF saved]
  have "bookings st2 = bookings st @ [b]"
    and b: "b = (new_booking env act requestedDate cust sel ?n (generate_bookingNumber env st1))
                  \<lparr>booking_id := nextId st1\<rparr>"
    by simp_all
  moreover have "pricePerPerson_of act = price act"
    using full by (simp add: pricePerPerson_of_def)
  ultimately show ?thesis
    unfolding R by (simp add: new_booking_def)
qed

lemma format_bookingNumber_suffix:
  "\<exists>p. format_bookingNumber ymd 1 = p @ ''-0001'' \<and>
       format_bookingNumber ymd 9999 = p @ ''-9999'' \<and>
       format_bookingNumber ymd 10000 = p @ ''-10000''"
  by (cases ymd) (simp add: format_bookingNumber_def String_of_def digits_of.simps padStart_def)

lemma parseInt_0000: "parseInt ''0000'' = Some 0"
  by (simp add: parseInt_def digits_value_def is_digit_def is_space_def)

lemma parseInt_9999: "parseInt ''9999'' = Some 9999"
  by (simp add: parseInt_def digits_value_def is_digit_def is_space_def)

text \<open>
  Claim C6 fails past 10000. When the last booking of the day has the sequence 9999 the next
  number has the sequence 10000, five digits wide; when the last booking has the sequence
  10000 the next number has the sequence 1 again, since only the last four characters of
  the last number are read.
\<close>

theorem bookingNumber_sequence_wraps:
  assumes last: "lastBookingOfToday env st = Some lb"
  shows "(bookingNumber lb = Some (format_bookingNumber ymd 9999) \<longrightarrow>
            generate_bookingNumber env st = format_bookingNumber (local_date env (now env)) 10000)
       \<and> (bookingNumber lb = Some (format_bookingNumber ymd 10000) \<longrightarrow>
            generate_bookingNumber env st = format_bookingNumber (local_date env (now env)) 1)"
proof -
  from format_bookingNumber_suffix[of ymd] obtain p where
    p: "format_bookingNumber ymd 9999 = p @ ''-9999''"
       "format_bookingNumber ymd 10000 = p @ ''-10000''"
    by blast
  have "slice_last 4 (p @ ''-9999'') = ''9999''" "slice_last 4 (p @ ''-10000'') = ''0000''"
    by (simp_all add: slice_last_def)
  then have "bookingNumber lb = Some (p @ ''-9999'') \<Longrightarrow> next_sequence (Some lb) = 10000"
    and "bookingNumber lb = Some (p @ ''-10000'') \<Longrightarrow> next_sequence (Some lb) = 1"
    by (simp_all add: next_sequence_def parseInt_0000 parseInt_9999)
  then show ?thesis
    by (simp add: generate_bookingNumber_def last p)
qed

section \<open>The concrete day, evaluated\<close>

lemma demo_local_date: "local_date demo_env (now demo_env) = (2025, 1, 15)"
  by code_simp

lemma demo_booking_fields:
  "booking_id demo_booking = 100" "activity_ref demo_booking = 1"
  "selectedTimeSlot demo_booking = demo_sel" "numberOfParticipants demo_booking = 2"
  "bookingStatus demo_booking = ''Initiated''" "paymentStatus demo_booking = ''Pending''"
  "paymentMethod demo_booking = None" "bookingDate demo_booking = 1736899200000"
  "bookingNumber demo_booking = Some ''BK-250115-0001''" "createdAt demo_booking = 1736935200000"
  "razorpayOrderId demo_booking = None" "checkedIn demo_booking = False"
  "name (customerDetails demo_booking) = ''Asha''"
  "phone (customerDetails demo_booking) = ''9876543210''"
  by (simp_all add: demo_booking_def new_booking_def demo_activity_def demo_env_def demo_sel_def
        demo_customer_def trim_def is_space_def)

lemma booked_activity_fields:
  "activity_id booked_activity = 1" "timeSlots booked_activity = [demo_slot\<lparr>availableSpots := 3\<rparr>]"
  "startDate booked_activity \<le> endDate booked_activity" "age_range_ok booked_activity"
  "title booked_activity = ''Zipline''"
  by (simp_all add: booked_activity_def demo_activity_def age_range_ok_def truthy_def)

lemma demo_same_slot: "same_slot demo_sel (demo_slot\<lparr>availableSpots := k\<rparr>)"
  by (simp add: same_slot_def demo_sel_def demo_slot_def)

lemma demo_findIndex: "findIndex (same_slot demo_sel) [demo_slot\<lparr>availableSpots := k\<rparr>] = Some 0"
  by (simp add: same_slot_def demo_sel_def demo_slot_def)

lemma demo_hmac: "hmac_sha256_hex demo_env k m = k @ m" "hmac_sha256_hex later_env k m = k @ m"
  "RAZORPAY_KEY_SECRET later_env = ''S''" "RAZORPAY_KEY_SECRET demo_env = ''S''"
  "RAZORPAY_WEBHOOK_SECRET demo_env = ''W''"
  "json_body demo_env (e, Entity p) = e @ order_id p"
  "json_body demo_env (e, Absent) = e" "json_body demo_env (e, NoEntity) = e"
  "now demo_env = 1736935200000" "now later_env = 1736935400000"
  by (simp_all add: demo_env_def later_env_def demo_json_body_def)

lemma webhook_with_fields:
  "x_razorpay_signature (webhook_with ev ord m) = Some (''W'' @ ev @ ord)"
  "event (webhook_with ev ord m) = ev"
  "body_payload (webhook_with ev ord m) =
     Entity \<lparr>order_id = ord, payment_id = ''pay_2'', payment_method = m\<rparr>"
  by (simp_all add: webhook_with_def)

lemma webhook_with_signed:
  "x_razorpay_signature (webhook_with ev ord m) =
     Some (hmac_sha256_hex demo_env (RAZORPAY_WEBHOOK_SECRET demo_env)
             (json_body demo_env (event (webhook_with ev ord m), body_payload (webhook_with ev ord m))))"
  by (simp add: demo_hmac webhook_with_fields)

lemma bare_webhook_fields:
  "x_razorpay_signature (bare_webhook ev r) = Some (''W'' @ ev)"
  "event (bare_webhook ev r) = ev" "body_payload (bare_webhook ev r) = r"
  by (simp_all add: bare_webhook_def)

lemma bare_webhook_signed:
  "r = Absent \<or> r = NoEntity \<Longrightarrow>
   x_razorpay_signature (bare_webhook ev r) =
     Some (hmac_sha256_hex demo_env (RAZORPAY_WEBHOOK_SECRET demo_env)
             (json_body demo_env (event (bare_webhook ev r), body_payload (bare_webhook ev r))))"
  by (auto simp: demo_hmac bare_webhook_fields)

lemma pending_booking_fields:
  "booking_id pending_booking = 100" "activity_ref pending_booking = 1"
  "selectedTimeSlot pending_booking = demo_sel" "numberOfParticipants pending_booking = 2"
  "bookingStatus pending_booking = ''Initiated''" "paymentStatus pending_booking = ''Pending''"
  "paymentMethod pending_booking = None" "bookingDate pending_booking = 1736899200000"
  "bookingNumber pending_booking = Some ''BK-250115-0001''"
  "razorpayOrderId pending_booking = Some ''order_abc''"
  "name (customerDetails pending_booking) = ''Asha''"
  "phone (customerDetails pending_booking) = ''9876543210''"
  by (simp_all add: pending_booking_def demo_booking_fields)

lemma pending_store_lookup:
  "findBookingById pending_store 100 = Some pending_booking"
  "findActivityById pending_store 1 = Some booked_activity"
  "findBookingByOrder pending_store ''order_abc'' = Some pending_booking"
  "findBookingByOrder pending_store ''order_zzz'' = None"
  by (simp_all add: findBookingById_def findActivityById_def findBookingByOrder_def pending_store_def
        created_store_def pending_booking_fields booked_activity_fields)

lemma paid_booking_fields:
  "booking_id paid_booking = 100" "activity_ref paid_booking = 1"
  "bookingStatus paid_booking = ''Confirmed''" "paymentStatus paid_booking = ''Completed''"
  "checkedIn paid_booking = False" "bookingDate paid_booking = 1736899200000"
  "paidAt paid_booking = Some 1736930000000"
  "qrData paid_booking = Some (generateQRData paying_env pending_booking)"
  "selectedTimeSlot paid_booking = demo_sel" "phone (customerDetails paid_booking) = ''9876543210''"
  "bookingNumber paid_booking = Some ''BK-250115-0001''"
  "name (customerDetails paid_booking) = ''Asha''" "numberOfParticipants paid_booking = 2"
  "razorpayOrderId paid_booking = Some ''order_abc''"
  by (simp_all add: paid_booking_def pending_booking_def demo_booking_fields)

lemma paid_store_lookup:
  "findBookingById paid_store 100 = Some paid_booking"
  "findActivityById paid_store (activity_ref paid_booking) = Some booked_activity"
  "findBookingByOrder paid_store ''order_abc'' = Some paid_booking"
  "findBookingByOrder paid_store ''order_zzz'' = None"
  "outbox paid_store = []"
  by (simp_all add: findBookingById_def findActivityById_def findBookingByOrder_def paid_store_def
        created_store_def paid_booking_fields booked_activity_fields)

lemma demo_cipher_round:
  "length iv = 16 \<Longrightarrow> demo_decipher k iv (demo_cipher k iv m) = Some m"
  by (simp add: demo_decipher_def demo_cipher_def map_idI unat_of_nat)

lemma demo_codec:
  "demo_parse (demo_stringify (demo_payload 1736930000000)) = Some (demo_payload 1736930000000)"
  "demo_parse (demo_stringify (demo_payload 1736935200000)) = Some (demo_payload 1736935200000)"
  "demo_parse (demo_stringify second_payload) = Some second_payload"
  by (simp_all add: demo_parse_def demo_stringify_def demo_payload_def second_payload_def
        String_of_def digits_of.simps parseInt_def is_space_def is_digit_def digits_value_def Let_def)

lemma demo_crypto:
  "QR_SECRET later_env = QR_SECRET demo_env" "scryptSync later_env = scryptSync demo_env"
  "QR_SECRET paying_env = QR_SECRET demo_env" "scryptSync paying_env = scryptSync demo_env"
  "decipher demo_env = demo_decipher" "decipher later_env = demo_decipher"
  "cipher demo_env = demo_cipher" "cipher paying_env = demo_cipher"
  "json_stringify demo_env = demo_stringify" "json_stringify paying_env = demo_stringify"
  "json_parse demo_env = demo_parse" "json_parse later_env = demo_parse"
  "length (randomBytes16 demo_env) = 16" "length (randomBytes16 paying_env) = 16"
  "randomBytes16 later_env \<noteq> randomBytes16 demo_env"
  "randomBytes16 later_env \<noteq> randomBytes16 paying_env"
  by (simp_all add: later_env_def paying_env_def demo_env_def)

lemma second_booking_fields:
  "booking_id second_booking = 101" "activity_ref second_booking = 1"
  "selectedTimeSlot second_booking = demo_sel" "numberOfParticipants second_booking = 1"
  "bookingDate second_booking = 1736899200000"
  "bookingNumber second_booking = Some ''BK-250115-0002''"
  "name (customerDetails second_booking) = ''Ravi''"
  "phone (customerDetails second_booking) = ''9123456780''"
  by (simp_all add: second_booking_def new_booking_def demo_customer_def demo_activity_def
        trim_def is_space_def)

lemma demo_qr_data:
  "qr_data paying_env pending_booking = demo_payload 1736930000000"
  by (simp add: qr_data_def pending_booking_fields demo_payload_def demo_sel_def paying_env_def)

text \<open>The credential of the paid booking, as the scanner of this day and of a later call reads it.\<close>

lemma demo_decrypt:
  "decryptQRData demo_env (generateQRData paying_env pending_booking) = Some (demo_payload 1736930000000)"
  "decryptQRData later_env (generateQRData paying_env pending_booking) = Some (demo_payload 1736930000000)"
proof -
  have dec: "decipher e (scryptSync paying_env (secretKey paying_env)) (randomBytes16 paying_env)
      (cipher paying_env (scryptSync paying_env (secretKey paying_env)) (randomBytes16 paying_env)
         (json_stringify paying_env (qr_data paying_env pending_booking)))
      = Some (json_stringify paying_env (qr_data paying_env pending_booking))"
    if "decipher e = demo_decipher" for e
    using that by (simp add: demo_crypto demo_cipher_round)
  have parse: "json_parse e (json_stringify paying_env (qr_data paying_env pending_booking)) =
      Some (qr_data paying_env pending_booking)"
    if "json_parse e = demo_parse" for e
    using that by (simp add: demo_crypto demo_qr_data demo_codec)
  show "decryptQRData demo_env (generateQRData paying_env pending_booking) = Some (demo_payload 1736930000000)"
    using decrypt_generated[OF _ _ dec parse, of demo_env] by (simp add: demo_crypto demo_qr_data)
  show "decryptQRData later_env (generateQRData paying_env pending_booking) = Some (demo_payload 1736930000000)"
    using decrypt_generated[OF _ _ dec parse, of later_env] by (simp add: demo_crypto demo_qr_data)
qed

lemma demo_format:
  "format_bookingNumber (2025, 1, 15) 1 = ''BK-250115-0001''"
  "format_bookingNumber (2025, 1, 15) 9999 = ''BK-250115-9999''"
  "format_bookingNumber (2025, 1, 15) 10000 = ''BK-250115-10000''"
  by (simp_all add: format_bookingNumber_def String_of_def digits_of.simps padStart_def slice_last_def)

lemma busy_store_last:
  "lastBookingOfToday later_env (busy_store num) =
     Some (demo_booking\<lparr>booking_id := 101, bookingNumber := Some num, createdAt := 1736935300000\<rparr>)"
  by (simp add: lastBookingOfToday_def busy_store_def created_store_def startOfDay_def msPerDay_def
        demo_hmac demo_booking_fields later_env_def demo_env_def)

lemma later_local_date: "local_date later_env (now later_env) = (2025, 1, 15)"
  by code_simp

lemma free_check_request:
  "check_request demo_env free_store (demo_request 2) =
     Inr (free_activity, 1736899200000, demo_customer, demo_sel, demo_slot)"
  by (simp add: check_request_def demo_defs free_store_def free_activity_def findActivityById_def
        startOfDay_def weekday_def msPerDay_def same_slot_def)

lemma demo_generate: "generate_bookingNumber demo_env demo_store = ''BK-250115-0001''"
  by (simp add: generate_bookingNumber_def demo_local_date demo_format lastBookingOfToday_def
        demo_store_def next_sequence_def)

lemma demo_created:
  "createBooking demo_env demo_store (demo_request 2) =
     (Reply 201 True ''Booking initiated successfully. Please proceed to payment.''
        (BookingData 100 (Some ''BK-250115-0001'') 900 ''INR''), created_store)"
proof -
  have idx: "findIndex (same_slot demo_sel) (timeSlots demo_activity) = Some 0"
    by (simp add: demo_activity_def same_slot_def demo_sel_def demo_slot_def)
  have sv: "activity_save demo_store demo_activity (add_spots demo_activity 0 (- 2)) =
      Inr (demo_store\<lparr>activities := [booked_activity]\<rparr>)"
    by (simp add: activity_save_def add_spots_def modified_slots_valid_def activity_pre_save_def
          demo_activity_def demo_slot_def demo_store_def booked_activity_def truthy_def)
  have g: "generate_bookingNumber demo_env (demo_store\<lparr>activities := [booked_activity]\<rparr>) =
      ''BK-250115-0001''"
    using demo_generate generate_bookingNumber_cong[of "demo_store\<lparr>activities := [booked_activity]\<rparr>" demo_store demo_env]
    by simp
  have v: "booking_valid ((new_booking demo_env demo_activity 1736899200000 demo_customer demo_sel 2
              ''BK-250115-0001'')\<lparr>booking_id := 100\<rparr>)"
    using demo_booking_valid[of 2 1736899200000 "''BK-250115-0001''"] by (simp add: booking_valid_def)
  have c: "booking_create (demo_store\<lparr>activities := [booked_activity]\<rparr>)
        (new_booking demo_env demo_activity 1736899200000 demo_customer demo_sel 2 ''BK-250115-0001'')
      = Inr (demo_booking, created_store)"
    using v by (simp add: booking_create_def demo_store_def created_store_def demo_booking_def Let_def)
  have f: "finalAmount demo_booking = 900"
    by (simp add: demo_booking_def new_booking_def pricePerPerson_of_def demo_activity_def)
  have n: "req_numberOfParticipants (demo_request 2) = 2" "availableSpots demo_slot = 5"
    "maxParticipants demo_activity = 3"
    by (simp_all add: demo_request_def demo_slot_def demo_activity_def)
  show ?thesis
    by (simp add: createBooking_def demo_check_request n idx sv g c f demo_booking_fields)
qed

lemma Math_round_int: "Math_round (of_int k) = k"
  unfolding Math_round_def by (rule floor_unique) simp_all

lemma demo_ordered:
  "createPaymentOrder demo_env created_store (Some 100) =
     (Reply 200 True ''Payment order created successfully''
        (OrderData ''order_abc'' 90000 ''INR'' (Some ''BK-250115-0001'')), pending_store)"
proof -
  have c: "findBookingById created_store 100 = Some demo_booking"
    by (simp add: findBookingById_def created_store_def demo_booking_fields)
  have f: "finalAmount demo_booking = 900"
    by (simp add: demo_booking_def new_booking_def pricePerPerson_of_def demo_activity_def)
  have o: "order_options_of demo_booking =
      \<lparr>amount = 90000, currency = ''INR'', receipt = ''receipt_BK-250115-0001'',
       notes_bookingId = 100, notes_bookingNumber = Some ''BK-250115-0001''\<rparr>"
    using Math_round_int[of 90000]
    by (simp add: order_options_of_def f demo_booking_fields)
  have g: "orders_create demo_env x =
      Some \<lparr>order_ident = ''order_abc'', order_amount = amount x, order_currency = currency x\<rparr>" for x
    by (simp add: demo_env_def)
  have s: "booking_save created_store demo_booking (demo_booking\<lparr>razorpayOrderId := Some ''order_abc''\<rparr>)
      = Inr pending_store"
    by (simp add: booking_save_def created_store_def pending_store_def pending_booking_def
          demo_booking_fields)
  show ?thesis
    by (simp add: createPaymentOrder_def c demo_booking_fields o g s)
qed

section \<open>The properties on the concrete day\<close>

text \<open>
  C2 on the concrete day: the slot starts with five spots, the booking of two leaves three,
  the failed payment gives five, the cancellation gives seven.
\<close>

theorem double_release_exceeds_capacity_witness:
  "spots_of demo_store 1 demo_sel = Some 5 \<and>
   snd (createBooking demo_env demo_store (demo_request 2)) = created_store \<and>
   snd (createPaymentOrder demo_env created_store (Some 100)) = pending_store \<and>
   spots_of pending_store 1 demo_sel = Some 3 \<and>
   spots_of (snd (paymentWebhook demo_env pending_store (webhook_of ''payment.failed'' ''order_abc'')))
      1 demo_sel = Some 5 \<and>
   spots_of (snd (cancelBooking later_env
        (snd (paymentWebhook demo_env pending_store (webhook_of ''payment.failed'' ''order_abc'')))
        100 [] 7)) 1 demo_sel = Some 7"
proof -
  let ?p = "\<lparr>order_id = ''order_abc'', payment_id = ''pay_2'', payment_method = Some ''upi''\<rparr>"
  have e: "body_payload (webhook_of ''payment.failed'' ''order_abc'') = Entity ?p"
    "event (webhook_of ''payment.failed'' ''order_abc'') = ''payment.failed''"
    by (simp_all add: webhook_of_def webhook_with_fields)
  have sg: "x_razorpay_signature (webhook_of ''payment.failed'' ''order_abc'') =
     Some (hmac_sha256_hex demo_env (RAZORPAY_WEBHOOK_SECRET demo_env)
             (json_body demo_env (event (webhook_of ''payment.failed'' ''order_abc''),
                                   body_payload (webhook_of ''payment.failed'' ''order_abc''))))"
    unfolding webhook_of_def by (rule webhook_with_signed)
  have b: "findBookingByOrder pending_store (order_id ?p) = Some pending_booking"
    "findBookingById pending_store 100 = Some pending_booking"
    "paymentStatus pending_booking = ''Pending''"
    "activity_ref pending_booking = 1" "selectedTimeSlot pending_booking = demo_sel"
    "numberOfParticipants pending_booking = 2"
    by (simp_all add: findBookingByOrder_def findBookingById_def pending_store_def created_store_def
          pending_booking_def demo_booking_fields)
  have a: "findActivityById pending_store (activity_ref pending_booking) = Some booked_activity"
    by (simp add: findActivityById_def pending_store_def created_store_def b booked_activity_fields)
  have i: "findIndex (same_slot (selectedTimeSlot pending_booking)) (timeSlots booked_activity) = Some 0"
    by (simp add: b booked_activity_fields demo_same_slot)
  have n: "1 \<le> numberOfParticipants pending_booking"
    "1 \<le> availableSpots (timeSlots booked_activity ! 0) + numberOfParticipants pending_booking"
    by (simp_all add: b booked_activity_fields demo_slot_def)
  have s: "spots_of demo_store 1 demo_sel = Some 5"
    by (simp add: spots_of_def findActivityById_def demo_store_def demo_activity_def same_slot_def
          demo_sel_def demo_slot_def)
  have "RAZORPAY_WEBHOOK_SECRET demo_env \<noteq> []" by (simp add: demo_hmac)
  from double_release_exceeds_capacity[OF this sg e(2,1) b(1,2,3) a i n
         booked_activity_fields(3,4), of later_env "[]" 7] s
  show ?thesis
    by (simp add: b booked_activity_fields demo_slot_def demo_same_slot spots_of_def a[unfolded b]
          demo_created demo_ordered)
qed

text \<open>
  C3 on the concrete day: the booking was paid at 08:33:20; a second verification at 10:03:20
  moves \<open>paidAt\<close> to that time, replaces the credential by a new one and sends the
  confirmations again.
\<close>

theorem verifyPayment_reapplies_confirmation_witness:
  "paymentStatus paid_booking = ''Completed'' \<and>
   paidAt paid_booking = Some 1736930000000 \<and>
   qrData paid_booking = Some (generateQRData paying_env pending_booking) \<and>
   status_code (fst (verifyPayment later_env paid_store (verify_request_of ''Sorder_abc|pay_2''))) = 200 \<and>
   map_option paidAt
     (findBookingById (snd (verifyPayment later_env paid_store (verify_request_of ''Sorder_abc|pay_2''))) 100)
     = Some (Some 1736935400000) \<and>
   map_option qrData
     (findBookingById (snd (verifyPayment later_env paid_store (verify_request_of ''Sorder_abc|pay_2''))) 100)
     = Some (Some (generateQRData later_env paid_booking)) \<and>
   generateQRData later_env paid_booking \<noteq> generateQRData paying_env pending_booking \<and>
   outbox (snd (verifyPayment later_env paid_store (verify_request_of ''Sorder_abc|pay_2''))) =
     [(''email'', 100), (''whatsapp'', 100)]"
proof -
  let ?req = "verify_request_of ''Sorder_abc|pay_2''"
  have r: "razorpay_order_id ?req \<noteq> []" "razorpay_payment_id ?req \<noteq> []"
    "razorpay_signature ?req \<noteq> []" "bookingId ?req = Some 100"
    by (simp_all add: verify_request_of_def)
  have good: "hmac_sha256_hex later_env (RAZORPAY_KEY_SECRET later_env)
      (razorpay_order_id ?req @ ''|'' @ razorpay_payment_id ?req) = razorpay_signature ?req"
    by (simp add: demo_hmac verify_request_of_def)
  have m: "payments_fetch later_env (razorpay_payment_id ?req) = Some (Some ''Card'')"
    "''Card'' \<noteq> []" "paymentMethod_enum (Some ''Card'')"
    by (simp_all add: later_env_def demo_env_def paymentMethod_enum_def)
  have img: "toDataURL later_env (generateQRData later_env paid_booking) =
      Some (''png:'' @ generateQRData later_env paid_booking)"
    by (simp add: later_env_def demo_env_def)
  have new: "generateQRData later_env paid_booking \<noteq> generateQRData paying_env pending_booking"
    using generateQRData_draw[of later_env paid_booking paying_env pending_booking]
    by (auto simp: demo_crypto)
  from verifyPayment_reapplies_confirmation[OF r paid_store_lookup(1) good m paid_store_lookup(2) img]
  show ?thesis
    by (simp add: paid_booking_fields paid_store_lookup demo_hmac new)
qed

text \<open>C4 on the concrete day: the credential of the paid booking scanned twice.\<close>

theorem scanQR_second_scan_witness:
  "qrData paid_booking = Some (generateQRData paying_env pending_booking) \<and>
   fst (scanQR demo_env paid_store (generateQRData paying_env pending_booking) 7) =
     Reply 200 True ''Check-in successful!''
       (CheckInData (Some ''BK-250115-0001'') ''Asha'' ''Zipline'' 2 (Some 1736935200000)) \<and>
   scanQR later_env (snd (scanQR demo_env paid_store (generateQRData paying_env pending_booking) 7))
       (generateQRData paying_env pending_booking) 8 =
     (Reply 400 False ''Booking is not confirmed'' (CurrentStatus ''Completed''),
      snd (scanQR demo_env paid_store (generateQRData paying_env pending_booking) 7))"
proof -
  have t: "generateQRData paying_env pending_booking \<noteq> []"
    by (simp add: generateQRData_parts(1))
  have f: "findBookingById paid_store (qr_bookingId (demo_payload 1736930000000)) = Some paid_booking"
    by (simp add: demo_payload_def paid_store_lookup)
  have st: "bookingStatus paid_booking = ''Confirmed''" "paymentStatus paid_booking = ''Completed''"
    "\<not> checkedIn paid_booking"
    by (simp_all add: paid_booking_fields)
  have d: "startOfDay demo_env (bookingDate paid_booking) = startOfDay demo_env (now demo_env)"
    by (simp add: startOfDay_def paid_booking_fields demo_env_def msPerDay_def)
  from scanQR_second_scan[OF t demo_decrypt f st d paid_store_lookup(2), of 7 8]
  show ?thesis
    by (simp add: paid_booking_fields booked_activity_fields demo_hmac)
qed

text \<open>
  C5 on the concrete day, for the booking that awaits its payment: a captured payment by
  \<open>upi\<close>, one without method, one for an unknown order, a captured payment without entity,
  and a body without payment.
\<close>

theorem paymentWebhook_error_status_witness:
  "x_razorpay_signature (webhook_with ''payment.captured'' ''order_abc'' (Some ''upi'')) =
     Some (hmac_sha256_hex demo_env (RAZORPAY_WEBHOOK_SECRET demo_env)
             (json_body demo_env (''payment.captured'',
                Entity \<lparr>order_id = ''order_abc'', payment_id = ''pay_2'',
                        payment_method = Some ''upi''\<rparr>))) \<and>
   findBookingByOrder pending_store ''order_abc'' = Some pending_booking \<and>
   paymentStatus pending_booking = ''Pending'' \<and>
   paymentWebhook demo_env pending_store (webhook_with ''payment.captured'' ''order_abc'' (Some ''upi'')) =
     (Reply 500 False ''Webhook processing error'' (Thrown ValidationError), pending_store) \<and>
   paymentWebhook demo_env pending_store (webhook_with ''payment.captured'' ''order_abc'' None) =
     (Reply 500 False ''Webhook processing error'' (Thrown ValidationError), pending_store) \<and>
   paymentWebhook demo_env pending_store (webhook_with ''payment.captured'' ''order_zzz'' (Some ''UPI'')) =
     (Reply 404 False ''Booking not found'' NoDetail, pending_store) \<and>
   paymentWebhook demo_env pending_store (bare_webhook ''payment.captured'' NoEntity) =
     (Reply 500 False ''Webhook processing error'' (Thrown TypeError), pending_store) \<and>
   paymentWebhook demo_env pending_store (bare_webhook ''order.paid'' Absent) =
     (Reply 500 False ''Webhook processing error'' (Thrown TypeError), pending_store)"
proof -
  have s: "RAZORPAY_WEBHOOK_SECRET demo_env \<noteq> []" by (simp add: demo_hmac)
  have g: "x_razorpay_signature (webhook_with ''payment.captured'' ''order_abc'' (Some ''upi'')) =
     Some (hmac_sha256_hex demo_env (RAZORPAY_WEBHOOK_SECRET demo_env)
             (json_body demo_env (''payment.captured'',
                Entity \<lparr>order_id = ''order_abc'', payment_id = ''pay_2'',
                        payment_method = Some ''upi''\<rparr>)))"
    using webhook_with_signed[of "''payment.captured''" "''order_abc''" "Some ''upi''"]
    by (simp add: webhook_with_fields)
  note w = paymentWebhook_error_status[OF s webhook_with_signed, of _ _ _ pending_store]
  note v = paymentWebhook_error_status[OF s bare_webhook_signed, of _ _ pending_store]
  from w[of "''payment.captured''" "''order_abc''" "Some ''upi''"]
  have 1: "paymentWebhook demo_env pending_store (webhook_with ''payment.captured'' ''order_abc'' (Some ''upi'')) =
     (Reply 500 False ''Webhook processing error'' (Thrown ValidationError), pending_store)"
    by (simp add: webhook_with_fields pending_store_lookup pending_booking_fields paymentMethod_enum_def)
  from w[of "''payment.captured''" "''order_abc''" None]
  have 2: "paymentWebhook demo_env pending_store (webhook_with ''payment.captured'' ''order_abc'' None) =
     (Reply 500 False ''Webhook processing error'' (Thrown ValidationError), pending_store)"
    by (simp add: webhook_with_fields pending_store_lookup pending_booking_fields paymentMethod_enum_def)
  from w[of "''payment.captured''" "''order_zzz''" "Some ''UPI''"]
  have 3: "paymentWebhook demo_env pending_store (webhook_with ''payment.captured'' ''order_zzz'' (Some ''UPI'')) =
     (Reply 404 False ''Booking not found'' NoDetail, pending_store)"
    by (simp add: webhook_with_fields pending_store_lookup)
  from v[of NoEntity "''payment.captured''"]
  have 4: "paymentWebhook demo_env pending_store (bare_webhook ''payment.captured'' NoEntity) =
     (Reply 500 False ''Webhook processing error'' (Thrown TypeError), pending_store)"
    by (simp add: bare_webhook_fields)
  from v[of Absent "''order.paid''"]
  have 5: "paymentWebhook demo_env pending_store (bare_webhook ''order.paid'' Absent) =
     (Reply 500 False ''Webhook processing error'' (Thrown TypeError), pending_store)"
    by (simp add: bare_webhook_fields)
  from g 1 2 3 4 5 show ?thesis
    by (simp add: pending_store_lookup pending_booking_fields)
qed

text \<open>
  C6 on the concrete day: after \<open>BK-250115-9999\<close> comes \<open>BK-250115-10000\<close>, and after that
  \<open>BK-250115-0001\<close>, the number of the first booking of the day.
\<close>

theorem bookingNumber_sequence_wraps_witness:
  "generate_bookingNumber later_env (busy_store ''BK-250115-9999'') = ''BK-250115-10000'' \<and>
   generate_bookingNumber later_env (busy_store ''BK-250115-10000'') = ''BK-250115-0001'' \<and>
   map bookingNumber (bookings (busy_store ''BK-250115-10000'')) =
     [Some ''BK-250115-0001'', Some ''BK-250115-10000'']"
proof -
  from bookingNumber_sequence_wraps[OF busy_store_last, of "''BK-250115-9999''" "(2025, 1, 15)"]
       bookingNumber_sequence_wraps[OF busy_store_last, of "''BK-250115-10000''" "(2025, 1, 15)"]
  show ?thesis
    by (simp add: demo_format later_local_date busy_store_def created_store_def demo_booking_fields)
qed

text \<open>C7 on the concrete day: a forged signature for the pending booking.\<close>

theorem verifyPayment_invalid_signature_witness:
  "fst (verifyPayment demo_env pending_store (verify_request_of ''forged'')) =
       Reply 400 False ''Payment verification failed. Invalid signature.'' NoDetail \<and>
   map_option paymentStatus
      (findBookingById (snd (verifyPayment demo_env pending_store (verify_request_of ''forged''))) 100)
      = Some ''Failed'' \<and>
   map_option bookingStatus
      (findBookingById (snd (verifyPayment demo_env pending_store (verify_request_of ''forged''))) 100)
      = Some ''Initiated'' \<and>
   activities (snd (verifyPayment demo_env pending_store (verify_request_of ''forged''))) =
      activities pending_store"
proof -
  have f: "findBookingById pending_store 100 = Some pending_booking"
    by (simp add: findBookingById_def pending_store_def created_store_def pending_booking_def
          demo_booking_fields)
  have r: "razorpay_order_id (verify_request_of ''forged'') \<noteq> []"
    "razorpay_payment_id (verify_request_of ''forged'') \<noteq> []"
    "razorpay_signature (verify_request_of ''forged'') \<noteq> []"
    "bookingId (verify_request_of ''forged'') = Some 100"
    by (simp_all add: verify_request_of_def)
  have bad: "hmac_sha256_hex demo_env (RAZORPAY_KEY_SECRET demo_env)
      (razorpay_order_id (verify_request_of ''forged'') @ ''|'' @
       razorpay_payment_id (verify_request_of ''forged''))
      \<noteq> razorpay_signature (verify_request_of ''forged'')"
    by (simp add: demo_hmac verify_request_of_def)
  from verifyPayment_invalid_signature[OF r f bad]
  show ?thesis
    by (simp add: pending_booking_def demo_booking_fields)
qed

text \<open>
  C8 on the concrete day: the activity costs 500 with a discount of 100 percent; two
  participants are charged 1000.
\<close>

theorem createBooking_full_discount_price_witness:
  "priceAfterDiscount free_activity = Some 0 \<and>
   price free_activity = 500 \<and>
   status_code (fst (createBooking demo_env free_store (demo_request 2))) = 201 \<and>
   map pricePerPerson (bookings (snd (createBooking demo_env free_store (demo_request 2)))) = [500] \<and>
   map totalAmount (bookings (snd (createBooking demo_env free_store (demo_request 2)))) = [1000] \<and>
   map discountAmount (bookings (snd (createBooking demo_env free_store (demo_request 2)))) = [0]"
proof -
  have a: "priceAfterDiscount free_activity = Some 0" "price free_activity = 500"
    "maxParticipants free_activity = 3" "age_range_ok free_activity"
    "availableSpots demo_slot = 5" "req_numberOfParticipants (demo_request 2) = 2"
    "bookings free_store = []"
    by (simp_all add: free_activity_def demo_activity_def age_range_ok_def truthy_def demo_slot_def
          demo_request_def free_store_def demo_store_def)
  have v: "booking_valid (new_booking demo_env free_activity 1736899200000 demo_customer demo_sel
             (req_numberOfParticipants (demo_request 2)) (generate_bookingNumber demo_env free_store))"
    by (simp add: booking_valid_def new_booking_def demo_customer_def demo_sel_def trim_def is_space_def
        toLowerCase_def lower_char_def rx_test_def email_rx_def phone_rx_def rx_plus_def rx_opt_def
        is_word_def is_digit_def Let_def a)
  have c: "status_code (fst (createBooking demo_env free_store (demo_request 2))) = 201"
    using createBooking_success(2)[OF free_check_request _ _ _ a(4) v] by (simp add: a)
  from createBooking_full_discount_price[OF free_check_request a(1) c] c
  show ?thesis
    by (auto simp: a)
qed

text \<open>
  C9 on the concrete day: the credentials of two bookings are read back as their own
  payloads, the token starts with the sixteen bytes drawn, and an issuance with another
  draw gives another token.
\<close>

theorem qr_round_trip_witness:
  "decryptQRData later_env (generateQRData demo_env paid_booking) =
     Some \<lparr>qr_bookingId = 100, qr_bookingNumber = Some ''BK-250115-0001'',
           qr_customerName = ''Asha'', qr_customerPhone = ''9876543210'', qr_activityId = 1,
           qr_bookingDate = 1736899200000, qr_numberOfParticipants = 2,
           qr_timeSlot = \<lparr>startTime = ''10:00'', endTime = ''11:00''\<rparr>,
           qr_timestamp = 1736935200000\<rparr> \<and>
   decryptQRData later_env (generateQRData demo_env second_booking) =
     Some \<lparr>qr_bookingId = 101, qr_bookingNumber = Some ''BK-250115-0002'',
           qr_customerName = ''Ravi'', qr_customerPhone = ''9123456780'', qr_activityId = 1,
           qr_bookingDate = 1736899200000, qr_numberOfParticipants = 1,
           qr_timeSlot = \<lparr>startTime = ''10:00'', endTime = ''11:00''\<rparr>,
           qr_timestamp = 1736935200000\<rparr> \<and>
   hd (split_on CHR '':'' (generateQRData demo_env paid_booking)) =
     ''0102030405060708090a0b0c0d0e0fff'' \<and>
   from_hex (hd (split_on CHR '':'' (generateQRData demo_env paid_booking))) =
     [1, 2, 3, 4, 5, 6, 7, 8, 9, 10, 11, 12, 13, 14, 15, 255] \<and>
   generateQRData later_env paid_booking \<noteq> generateQRData demo_env paid_booking \<and>
   generateQRData later_env second_booking \<noteq> generateQRData demo_env paid_booking"
proof -
  have p1: "demo_payload 1736935200000 =
      \<lparr>qr_bookingId = booking_id paid_booking, qr_bookingNumber = bookingNumber paid_booking,
       qr_customerName = name (customerDetails paid_booking),
       qr_customerPhone = phone (customerDetails paid_booking),
       qr_activityId = activity_ref paid_booking, qr_bookingDate = bookingDate paid_booking,
       qr_numberOfParticipants = numberOfParticipants paid_booking,
       qr_timeSlot = selectedTimeSlot paid_booking, qr_timestamp = now demo_env\<rparr>"
    by (simp add: demo_payload_def paid_booking_fields demo_hmac demo_sel_def)
  have p2: "second_payload =
      \<lparr>qr_bookingId = booking_id second_booking, qr_bookingNumber = bookingNumber second_booking,
       qr_customerName = name (customerDetails second_booking),
       qr_customerPhone = phone (customerDetails second_booking),
       qr_activityId = activity_ref second_booking, qr_bookingDate = bookingDate second_booking,
       qr_numberOfParticipants = numberOfParticipants second_booking,
       qr_timeSlot = selectedTimeSlot second_booking, qr_timestamp = now demo_env\<rparr>"
    by (simp add: second_payload_def second_booking_fields demo_hmac demo_sel_def)
  have dec: "decipher later_env (scryptSync demo_env (secretKey demo_env)) (randomBytes16 demo_env)
      (cipher demo_env (scryptSync demo_env (secretKey demo_env)) (randomBytes16 demo_env)
         (json_stringify demo_env d))
      = Some (json_stringify demo_env d)" for d
    by (simp add: demo_crypto demo_cipher_round)
  have parse: "json_parse later_env (json_stringify demo_env (demo_payload 1736935200000)) =
      Some (demo_payload 1736935200000)"
    "json_parse later_env (json_stringify demo_env second_payload) = Some second_payload"
    by (simp_all add: demo_crypto demo_codec)
  have h: "to_hex (randomBytes16 demo_env) = ''0102030405060708090a0b0c0d0e0fff''"
    "randomBytes16 demo_env = [1, 2, 3, 4, 5, 6, 7, 8, 9, 10, 11, 12, 13, 14, 15, 255]"
    by (simp_all add: to_hex_def hex_digit_def demo_env_def)
  note r1 = qr_round_trip[OF p1 demo_crypto(1,2) dec parse(1)]
  note r2 = qr_round_trip[OF p2 demo_crypto(1,2) dec parse(2)]
  from r1 have 1: "decryptQRData later_env (generateQRData demo_env paid_booking) =
      Some (demo_payload 1736935200000)"
    by (rule conjunct1)
  from r2 have 2: "decryptQRData later_env (generateQRData demo_env second_booking) =
      Some second_payload"
    by (rule conjunct1)
  have 3: "hd (split_on CHR '':'' (generateQRData demo_env paid_booking)) =
      to_hex (randomBytes16 demo_env)"
    using r1[THEN conjunct2, THEN conjunct2, THEN conjunct1] by simp
  have 4: "from_hex (hd (split_on CHR '':'' (generateQRData demo_env paid_booking))) =
      randomBytes16 demo_env"
    using r1[THEN conjunct2, THEN conjunct2, THEN conjunct2, THEN conjunct1] .
  from r1 have 5: "randomBytes16 env2 \<noteq> randomBytes16 demo_env \<Longrightarrow>
      generateQRData env2 b2 \<noteq> generateQRData demo_env paid_booking" for env2 b2
    by blast
  note 3 = 3[unfolded h(1)] and 4 = 4[unfolded h(2)]
  from 1 2 3 4 5[OF demo_crypto(15)] show ?thesis
    by (simp add: demo_payload_def second_payload_def)
qed

text \<open>C10 on the concrete day: the paid booking is refused, the new booking gets its order.\<close>

theorem createPaymentOrder_guard_witness:
  "status_code (fst (createPaymentOrder demo_env paid_store (Some 100))) = 400 \<and>
   snd (createPaymentOrder demo_env paid_store (Some 100)) = paid_store \<and>
   status_code (fst (createPaymentOrder demo_env created_store (Some 100))) = 200 \<and>
   map_option razorpayOrderId
      (findBookingById (snd (createPaymentOrder demo_env created_store (Some 100))) 100)
      = Some (Some ''order_abc'')"
proof -
  have p: "findBookingById paid_store 100 = Some paid_booking"
    "paymentStatus paid_booking \<noteq> ''Pending''"
    by (simp_all add: findBookingById_def paid_store_def created_store_def paid_booking_def
          pending_booking_def demo_booking_fields)
  have c: "findBookingById created_store 100 = Some demo_booking"
    by (simp add: findBookingById_def created_store_def demo_booking_fields)
  have o: "orders_create demo_env (order_options_of demo_booking) =
      Some \<lparr>order_ident = ''order_abc'', order_amount = amount (order_options_of demo_booking),
            order_currency = currency (order_options_of demo_booking)\<rparr>"
    by (simp add: demo_env_def)
  from createPaymentOrder_guard[OF p(1), of demo_env] createPaymentOrder_guard[OF c, of demo_env] p(2) o
  show ?thesis
    by (simp add: demo_booking_fields)
qed

end
